theory Spec2Isabelle
  imports Main
begin

section \<open>BioTupload.py: values, exceptions and the outside world\<close>

text \<open>
  A Python \<open>str\<close> is a sequence of Unicode code points, so it is a list of naturals here;
  \<open>lit\<close> reads a literal of the source.
\<close>

type_synonym pystr = "nat list"

definition lit :: "string \<Rightarrow> pystr" where
  "lit cs = map of_char cs"

text \<open>
  The Unicode property \<open>Numeric_Type\<close> of a code point, as far as \<open>str.isdigit\<close> and
  \<open>int\<close> read it: a decimal digit with its value, a digit that is not a decimal (the
  superscript digits, the circled digits), or neither. The table belongs to the Python
  runtime, so it is a field of the world below.
\<close>

datatype numeric_type = Decimal nat | Digit | NoDigit

text \<open>The exceptions that the program can meet. Only \<open>SystemExit\<close> is not an \<open>Exception\<close>.\<close>

datatype exn =
    SystemExit nat
  | HTTPError
  | ConnectionError
  | RequestsJSONDecodeError
  | ValueError
  | TypeError
  | KeyError
  | IndexError
  | AttributeError
  | UnboundLocalError
  | FileNotFoundError
  | PermissionError

fun is_Exception :: "exn \<Rightarrow> bool" where
  "is_Exception (SystemExit c) = False"
| "is_Exception e = True"

fun is_RequestException :: "exn \<Rightarrow> bool" where
  "is_RequestException HTTPError = True"
| "is_RequestException ConnectionError = True"
| "is_RequestException RequestsJSONDecodeError = True"
| "is_RequestException e = False"

text \<open>
  A decoded JSON document. An object lists each member once, as the dictionary the decoder
  builds does. A float is kept as its literal: the program never computes with one.
\<close>

datatype json =
    JNull
  | JBool bool
  | JInt int
  | JFloat pystr
  | JStr pystr
  | JArr "json list"
  | JObj "(pystr \<times> json) list"

text \<open>
  The values of the dictionary \<open>data\<close> (\<open>vars\<close> of the argparse namespace): a string or
  \<open>None\<close>. Its keys are the nine destination names of the parser.
\<close>

datatype pyval = PStr pystr | PNone

datatype flag =
    Environment | Username | Password | SerialNumber | Organization
  | RegistrationCode | Description | Version | OutputDirectory

type_synonym pydict = "flag \<rightharpoonup> pyval"

text \<open>
  The command line as argparse reads it, token by token: a known flag with its value, the
  help flag, or a token that argparse does not recognise.
\<close>

datatype token = Opt flag pystr | Help | Unrecognized

text \<open>
  What \<open>requests\<close> gets for a request: no response at all (a connection error, a timeout),
  or a response with its status code and its body; the body is \<open>None\<close> when it does not
  decode as JSON.
\<close>

datatype http_result = NetError | Resp nat "json option"

text \<open>What the program does to the outside, in order: the requests sent and the pauses.
  A request carries its URL, the bearer token of its headers if any, and for a POST its body.\<close>

datatype event =
    HttpPost pystr "json option" json
  | HttpGet pystr "json option"
  | Sleep nat

datatype printed = PrintException exn | PrintValue "pystr option"

record date =
  year :: nat
  month :: nat
  day :: nat

text \<open>
  The file system: the paths that name an existing directory, the files with the JSON
  documents each one holds, and the paths that \<open>open\<close> refuses for another reason than
  a missing directory.
\<close>

record filesystem =
  dirs :: "pystr set"
  files :: "pystr \<rightharpoonup> json list"
  refused :: "pystr set"

text \<open>
  Everything a run reads from outside the program. \<open>server\<close> gives the answer to the
  request sent to a URL (each URL is requested at most once in a run). \<open>os_path_join\<close> and
  \<open>os_path_dirname\<close> are the platform's \<open>os.path\<close> functions on strings.
  \<open>json_error_is_request_exception\<close> says whether \<open>Response.json\<close> raises a
  \<open>RequestException\<close> on an undecodable body (requests from 2.27 on) or a plain
  \<open>ValueError\<close> (before).
\<close>

record world =
  argv :: "token list"
  today :: date
  unicode_numeric_type :: "nat \<Rightarrow> numeric_type"
  os_path_join :: "pystr \<Rightarrow> pystr \<Rightarrow> pystr"
  os_path_dirname :: "pystr \<Rightarrow> pystr"
  disk :: filesystem
  server :: "pystr \<Rightarrow> http_result"
  json_error_is_request_exception :: bool

text \<open>
  The module's global variables that one function writes and another reads, and the
  effects of the run so far. Each \<open>api_\<close> name, \<open>payload\<close>, \<open>headers_apis\<close> and the
  fetched values are assigned by the caller before the function that reads them is called
  (the functions call each other in one chain), so their initial values are never read.
\<close>

record pystate =
  EXECUTION_STATUS :: int
  ORGANIZATIONS_DIC :: "json \<rightharpoonup> json"
  data :: "pydict option"
  payload :: json
  api_login :: pystr
  api_post_registration_code :: pystr
  api_get_organizations :: pystr
  api_get_template_registration_code :: pystr
  api_get_template_onasport_device :: pystr
  api_post_onasport_device :: pystr
  headers_apis :: json
  response_json_list_organizations :: json
  template_id_registration_code :: json
  onasport_device_template_id :: json
  events :: "event list"
  fs :: filesystem
  stdout :: "printed list"

definition initial :: "world \<Rightarrow> pystate" where
  "initial w =
     \<lparr>EXECUTION_STATUS = 0, ORGANIZATIONS_DIC = Map.empty, data = None, payload = JNull,
      api_login = [], api_post_registration_code = [], api_get_organizations = [],
      api_get_template_registration_code = [], api_get_template_onasport_device = [],
      api_post_onasport_device = [], headers_apis = JNull,
      response_json_list_organizations = JNull, template_id_registration_code = JNull,
      onasport_device_template_id = JNull, events = [], fs = disk w, stdout = []\<rparr>"

definition SERIAL_NUMBER_LENGTH_ONASPORT :: nat where
  "SERIAL_NUMBER_LENGTH_ONASPORT = 10"

definition MIN_SERIAL_NUMBER_ONASPORT :: int where
  "MIN_SERIAL_NUMBER_ONASPORT = 1000000000"

definition MAX_SERIAL_NUMBER_ONASPORT :: int where
  "MAX_SERIAL_NUMBER_ONASPORT = 9999999999"

definition URL_DEV :: pystr where
  "URL_DEV = lit ''https://api.dev.onalabs.biot-med.com''"

definition URL_PROD :: pystr where
  "URL_PROD = lit ''https://api.onalabs.biot-med.com''"

section \<open>Library functions the program calls\<close>

text \<open>\<open>str.isdigit\<close>: at least one character, and every character a digit or a decimal.\<close>

definition isdigit :: "world \<Rightarrow> pystr \<Rightarrow> bool" where
  "isdigit w s = (s \<noteq> [] \<and> list_all (\<lambda>c. unicode_numeric_type w c \<noteq> NoDigit) s)"

text \<open>
  \<open>int(s)\<close> on a string of digits, the only strings the program converts (a sign, blanks
  and underscores, which \<open>int\<close> also reads, are not digits): the value when every
  character is a decimal, \<open>ValueError\<close> otherwise.
\<close>

fun decimal_value :: "world \<Rightarrow> pystr \<Rightarrow> nat \<Rightarrow> nat option" where
  "decimal_value w [] acc = Some acc"
| "decimal_value w (c # cs) acc =
     (case unicode_numeric_type w c of
        Decimal d \<Rightarrow> decimal_value w cs (10 * acc + d)
      | Digit \<Rightarrow> None
      | NoDigit \<Rightarrow> None)"

definition py_int :: "world \<Rightarrow> pystr \<Rightarrow> exn + int" where
  "py_int w s =
     (case decimal_value w s 0 of
        None \<Rightarrow> Inl ValueError
      | Some n \<Rightarrow> if s = [] then Inl ValueError else Inr (int n))"

text \<open>\<open>str(v)\<close> as an f-string formats a value of \<open>data\<close>.\<close>

fun py_str :: "pyval \<Rightarrow> pystr" where
  "py_str (PStr s) = s"
| "py_str PNone = lit ''None''"

text \<open>How \<open>json.dumps\<close> renders a value of \<open>data\<close>.\<close>

fun to_json :: "pyval \<Rightarrow> json" where
  "to_json (PStr s) = JStr s"
| "to_json PNone = JNull"

text \<open>\<open>d.get(k)\<close> and \<open>d.get(k, default)\<close> on a dictionary.\<close>

definition dict_get :: "pydict \<Rightarrow> flag \<Rightarrow> pyval" where
  "dict_get d k = (case d k of None \<Rightarrow> PNone | Some v \<Rightarrow> v)"

definition dict_get_default :: "pydict \<Rightarrow> flag \<Rightarrow> pyval \<Rightarrow> pyval" where
  "dict_get_default d k dflt = (case d k of None \<Rightarrow> dflt | Some v \<Rightarrow> v)"

text \<open>\<open>data.get(k)\<close> where \<open>data\<close> may be \<open>None\<close>, which has no attribute \<open>get\<close>.\<close>

definition data_get :: "pydict option \<Rightarrow> flag \<Rightarrow> exn + pyval" where
  "data_get dt k = (case dt of None \<Rightarrow> Inl AttributeError | Some d \<Rightarrow> Inr (dict_get d k))"

text \<open>\<open>x[k]\<close> with a string key and \<open>x[0]\<close>, on a decoded JSON value.\<close>

fun getitem :: "json \<Rightarrow> pystr \<Rightarrow> exn + json" where
  "getitem (JObj kvs) k = (case map_of kvs k of None \<Rightarrow> Inl KeyError | Some v \<Rightarrow> Inr v)"
| "getitem j k = Inl TypeError"

fun getitem0 :: "json \<Rightarrow> exn + json" where
  "getitem0 (JArr xs) = (case xs of [] \<Rightarrow> Inl IndexError | x # rest \<Rightarrow> Inr x)"
| "getitem0 (JStr s) = (case s of [] \<Rightarrow> Inl IndexError | c # rest \<Rightarrow> Inr (JStr [c]))"
| "getitem0 (JObj kvs) = Inl KeyError"
| "getitem0 j = Inl TypeError"

text \<open>The three chained subscripts of the source: \<open>response_json["accessJwt"]["token"]\<close>,
  \<open>response_json['data'][0]['id']\<close> and \<open>response_json['template']['id']\<close>.\<close>

definition access_token :: "json \<Rightarrow> exn + json" where
  "access_token j =
     (case getitem j (lit ''accessJwt'') of
        Inl e \<Rightarrow> Inl e
      | Inr access \<Rightarrow> getitem access (lit ''token''))"

definition first_template_id :: "json \<Rightarrow> exn + json" where
  "first_template_id j =
     (case getitem j (lit ''data'') of
        Inl e \<Rightarrow> Inl e
      | Inr templates \<Rightarrow>
          (case getitem0 templates of
             Inl e \<Rightarrow> Inl e
           | Inr first \<Rightarrow> getitem first (lit ''id'')))"

definition device_template_id :: "json \<Rightarrow> exn + json" where
  "device_template_id j =
     (case getitem j (lit ''template'') of
        Inl e \<Rightarrow> Inl e
      | Inr template \<Rightarrow> getitem template (lit ''id''))"

text \<open>The items a \<open>for\<close> loop draws from a decoded JSON value.\<close>

fun iterate :: "json \<Rightarrow> exn + json list" where
  "iterate (JArr xs) = Inr xs"
| "iterate (JObj kvs) = Inr (map (\<lambda>kv. JStr (fst kv)) kvs)"
| "iterate (JStr s) = Inr (map (\<lambda>c. JStr [c]) s)"
| "iterate j = Inl TypeError"

text \<open>A list and a dictionary cannot be the key of a dictionary.\<close>

fun hashable :: "json \<Rightarrow> bool" where
  "hashable (JArr xs) = False"
| "hashable (JObj kvs) = False"
| "hashable j = True"

text \<open>\<open>datetime.strftime("%y%m%d")\<close>: two digits each for the year in its century,
  the month and the day.\<close>

definition two_digits :: "nat \<Rightarrow> pystr" where
  "two_digits n = [48 + (n div 10) mod 10, 48 + n mod 10]"

definition strftime_ymd :: "date \<Rightarrow> pystr" where
  "strftime_ymd d = two_digits (year d mod 100) @ two_digits (month d) @ two_digits (day d)"

definition DATE :: "world \<Rightarrow> pystr" where
  "DATE w = strftime_ymd (today w)"

text \<open>\<open>os.path.join(a, b)\<close>: a \<open>TypeError\<close> when an argument is \<open>None\<close>.\<close>

definition path_join :: "world \<Rightarrow> pyval \<Rightarrow> pystr option \<Rightarrow> exn + pystr" where
  "path_join w a b =
     (case a of
        PNone \<Rightarrow> Inl TypeError
      | PStr d \<Rightarrow> (case b of None \<Rightarrow> Inl TypeError | Some f \<Rightarrow> Inr (os_path_join w d f)))"

text \<open>\<open>open(path, 'w')\<close>: the directory of the path must exist; the file is created or
  emptied.\<close>

definition open_w :: "world \<Rightarrow> filesystem \<Rightarrow> pystr \<Rightarrow> exn + filesystem" where
  "open_w w f p =
     (if os_path_dirname w p \<notin> dirs f then Inl FileNotFoundError
      else if p \<in> refused f then Inl PermissionError
      else Inr (f\<lparr>files := (files f)(p \<mapsto> [])\<rparr>))"

text \<open>\<open>json.dump(content, f)\<close> adds one document at the end of the open file.\<close>

definition json_dump :: "json \<Rightarrow> filesystem \<Rightarrow> pystr \<Rightarrow> filesystem" where
  "json_dump content f p =
     f\<lparr>files := (files f)(p \<mapsto> (case files f p of None \<Rightarrow> [] | Some docs \<Rightarrow> docs) @ [content])\<rparr>"

text \<open>A request followed by \<open>raise_for_status\<close>: a \<open>RequestException\<close> when there is no
  response, an \<open>HTTPError\<close> for a status code from 400 to 599, else the response.\<close>

definition raise_for_status :: "http_result \<Rightarrow> exn + json option" where
  "raise_for_status r =
     (case r of
        NetError \<Rightarrow> Inl ConnectionError
      | Resp code body \<Rightarrow> if 400 \<le> code \<and> code < 600 then Inl HTTPError else Inr body)"

text \<open>\<open>response.json()\<close>.\<close>

definition response_dot_json :: "world \<Rightarrow> json option \<Rightarrow> exn + json" where
  "response_dot_json w body =
     (case body of
        None \<Rightarrow> Inl (if json_error_is_request_exception w then RequestsJSONDecodeError else ValueError)
      | Some j \<Rightarrow> Inr j)"

text \<open>\<open>json.loads(response.content.decode("utf-8"))\<close>, where \<open>response\<close> is \<open>None\<close>
  when the call failed.\<close>

definition loads_content :: "json option option \<Rightarrow> exn + json" where
  "loads_content response =
     (case response of
        None \<Rightarrow> Inl AttributeError
      | Some body \<Rightarrow> (case body of None \<Rightarrow> Inl ValueError | Some j \<Rightarrow> Inr j))"

text \<open>The clause \<open>except requests.exceptions.RequestException\<close> that sets a status.\<close>

definition except_RequestException ::
  "int \<Rightarrow> (exn + unit) \<times> pystate \<Rightarrow> (exn + unit) \<times> pystate" where
  "except_RequestException code r =
     (case r of
        (Inl e, s) \<Rightarrow>
          if is_RequestException e then (Inr (), s\<lparr>EXECUTION_STATUS := code\<rparr>) else (Inl e, s)
      | (Inr u, s) \<Rightarrow> (Inr u, s))"

section \<open>File operations\<close>

definition format_filename :: "world \<Rightarrow> pydict option \<Rightarrow> pystate \<Rightarrow> pystr option \<times> pystate" where
  "format_filename w dt s =
     (case dt of
        None \<Rightarrow> (None, s\<lparr>EXECUTION_STATUS := 1\<rparr>)
      | Some d \<Rightarrow>
          (Some (py_str (dict_get_default d SerialNumber (PStr (lit ''No_Serial_Number_Available'')))
                 @ lit ''_'' @ DATE w @ lit ''.json''), s))"

text \<open>The dictionary \<open>content\<close> that \<open>generate_json\<close> writes.\<close>

definition traceability_record :: "pyval \<Rightarrow> int \<Rightarrow> json" where
  "traceability_record sn status =
     JObj [(lit ''serialNumber'', to_json sn), (lit ''outputExecutionResult'', JInt status)]"

definition generate_json :: "world \<Rightarrow> pydict option \<Rightarrow> pystr \<Rightarrow> pystate \<Rightarrow> pystate" where
  "generate_json w dt filepath s =
     (case data_get dt SerialNumber of
        Inl e \<Rightarrow> s\<lparr>EXECUTION_STATUS := 4\<rparr>
      | Inr sn \<Rightarrow>
          (let content = traceability_record sn (EXECUTION_STATUS s)
           in case open_w w (fs s) filepath of
                Inl e \<Rightarrow> s\<lparr>EXECUTION_STATUS := 4\<rparr>
              | Inr f \<Rightarrow> s\<lparr>fs := json_dump content f filepath\<rparr>))"

definition manage_data_json ::
  "world \<Rightarrow> pydict option \<Rightarrow> pyval \<Rightarrow> pystate \<Rightarrow> pystr option \<times> pystate" where
  "manage_data_json w dt filepath s =
     (case format_filename w dt s of
        (filename, s1) \<Rightarrow>
          (case path_join w filepath filename of
             Inl e \<Rightarrow> (None, s1\<lparr>EXECUTION_STATUS := 3\<rparr>)
           | Inr filepath' \<Rightarrow> (Some filepath', generate_json w dt filepath' s1)))"

section \<open>Argument parsing\<close>

definition check_serial_number :: "world \<Rightarrow> pystr \<Rightarrow> pystate \<Rightarrow> (exn + pystr) \<times> pystate" where
  "check_serial_number w serial_number s =
     (if \<not> isdigit w serial_number then (Inr serial_number, s\<lparr>EXECUTION_STATUS := 5\<rparr>)
      else if length serial_number \<noteq> SERIAL_NUMBER_LENGTH_ONASPORT
        then (Inr serial_number, s\<lparr>EXECUTION_STATUS := 5\<rparr>)
      else (case py_int w serial_number of
              Inl e \<Rightarrow> (Inl e, s)
            | Inr n \<Rightarrow>
                if n < MIN_SERIAL_NUMBER_ONASPORT then (Inr serial_number, s\<lparr>EXECUTION_STATUS := 5\<rparr>)
                else (case py_int w serial_number of
                        Inl e \<Rightarrow> (Inl e, s)
                      | Inr m \<Rightarrow>
                          if m > MAX_SERIAL_NUMBER_ONASPORT
                          then (Inr serial_number, s\<lparr>EXECUTION_STATUS := 5\<rparr>)
                          else (Inr serial_number, s))))"

text \<open>
  argparse, as far as the program uses it. The tokens are read in order. The value of
  \<open>-sn\<close> goes through its \<open>type\<close> function, \<open>check_serial_number\<close>; argparse turns a
  \<open>ValueError\<close> or \<open>TypeError\<close> of a \<open>type\<close> function into a usage error. The value of
  \<open>-env\<close> must be one of the two choices. The help flag prints the help and exits with
  code 0. A usage error exits with code 2: a bad value at once, a missing required flag or
  an unrecognised token once the tokens have been read. The first, temporary parser of the
  source declares no argument and changes nothing.
\<close>

type_synonym namespace = "flag \<rightharpoonup> pystr"

definition required_flags :: "flag list" where
  "required_flags = [Environment, Username, Password, SerialNumber, Organization,
                     RegistrationCode, Description, Version]"

fun parse_args :: "world \<Rightarrow> token list \<Rightarrow> namespace \<Rightarrow> bool \<Rightarrow> pystate
    \<Rightarrow> (exn + namespace) \<times> pystate" where
  "parse_args w [] ns unrecognized s =
     (if list_ex (\<lambda>f. ns f = None) required_flags then (Inl (SystemExit 2), s)
      else if unrecognized then (Inl (SystemExit 2), s)
      else (Inr ns, s))"
| "parse_args w (Help # ts) ns unrecognized s = (Inl (SystemExit 0), s)"
| "parse_args w (Unrecognized # ts) ns unrecognized s = parse_args w ts ns True s"
| "parse_args w (Opt f v # ts) ns unrecognized s =
     (if f = SerialNumber then
        (case check_serial_number w v s of
           (Inl e, s1) \<Rightarrow>
             if e = ValueError \<or> e = TypeError then (Inl (SystemExit 2), s1) else (Inl e, s1)
         | (Inr v', s1) \<Rightarrow> parse_args w ts (ns(f \<mapsto> v')) unrecognized s1)
      else if f = Environment \<and> v \<noteq> lit ''production'' \<and> v \<noteq> lit ''development''
        then (Inl (SystemExit 2), s)
      else parse_args w ts (ns(f \<mapsto> v)) unrecognized s)"

definition parse_arguments :: "world \<Rightarrow> pystate \<Rightarrow> (exn + namespace option) \<times> pystate" where
  "parse_arguments w s =
     (case parse_args w (argv w) Map.empty False s of
        (Inl e, s1) \<Rightarrow>
          if is_Exception e then (Inr None, s1\<lparr>EXECUTION_STATUS := 6\<rparr>) else (Inl e, s1)
      | (Inr ns, s1) \<Rightarrow> (Inr (Some ns), s1))"

text \<open>\<open>vars\<close> of the namespace: every destination is a key; one that was not given is
  \<open>None\<close>.\<close>

definition vars :: "namespace \<Rightarrow> pydict" where
  "vars ns = (\<lambda>k. Some (case ns k of None \<Rightarrow> PNone | Some v \<Rightarrow> PStr v))"

definition parsed_object_to_dict :: "namespace option \<Rightarrow> pystate \<Rightarrow> pydict option \<times> pystate" where
  "parsed_object_to_dict parsed_object s =
     (case parsed_object of
        None \<Rightarrow> (None, s\<lparr>EXECUTION_STATUS := 7\<rparr>)
      | Some ns \<Rightarrow> (Some (vars ns), s))"

section \<open>Upload functions\<close>

text \<open>Both generic calls catch every exception: they return \<open>None\<close> and set a status.\<close>

definition get_api_call :: "world \<Rightarrow> pystr \<Rightarrow> json \<Rightarrow> pystate \<Rightarrow> json option option \<times> pystate" where
  "get_api_call w url header s =
     (let s1 = s\<lparr>events := events s @ [HttpGet url (Some header)]\<rparr>
      in case raise_for_status (server w url) of
           Inl e \<Rightarrow> (None, s1\<lparr>EXECUTION_STATUS := 8\<rparr>)
         | Inr body \<Rightarrow> (Some body, s1))"

definition post_api_call ::
  "world \<Rightarrow> pystr \<Rightarrow> json \<Rightarrow> json \<Rightarrow> pystate \<Rightarrow> json option option \<times> pystate" where
  "post_api_call w url header dt s =
     (let s1 = s\<lparr>events := events s @ [HttpPost url (Some header) dt]\<rparr>
      in case raise_for_status (server w url) of
           Inl e \<Rightarrow> (None, s1\<lparr>EXECUTION_STATUS := 9\<rparr>)
         | Inr body \<Rightarrow> (Some body, s1))"

text \<open>\<open>ORGANIZATIONS_DIC.get(data.get('Organization'))\<close>.\<close>

definition organization_id :: "pystate \<Rightarrow> pydict \<Rightarrow> json" where
  "organization_id s d =
     (case ORGANIZATIONS_DIC s (to_json (dict_get d Organization)) of
        None \<Rightarrow> JNull
      | Some v \<Rightarrow> v)"

definition registration_code_payload :: "pystate \<Rightarrow> pydict \<Rightarrow> json" where
  "registration_code_payload s d =
     JObj [(lit ''_ownerOrganization'', JObj [(lit ''id'', organization_id s d)]),
           (lit ''_code'', to_json (dict_get d RegistrationCode)),
           (lit ''_templateId'', template_id_registration_code s)]"

definition device_payload :: "pystate \<Rightarrow> pydict \<Rightarrow> json \<Rightarrow> json" where
  "device_payload s d registration_code_id =
     JObj [(lit ''_ownerOrganization'', JObj [(lit ''id'', organization_id s d)]),
           (lit ''_registrationCode'', JObj [(lit ''id'', registration_code_id)]),
           (lit ''_id'', to_json (dict_get d SerialNumber)),
           (lit ''_description'', to_json (dict_get d Description)),
           (lit ''device_version'', to_json (dict_get d Version)),
           (lit ''_templateId'', onasport_device_template_id s)]"

definition add_device :: "world \<Rightarrow> pydict option \<Rightarrow> pystate \<Rightarrow> (exn + unit) \<times> pystate" where
  "add_device w dt s =
     except_RequestException 15
       (case dt of
          None \<Rightarrow> (Inl AttributeError, s)
        | Some d \<Rightarrow>
            (case post_api_call w (api_post_registration_code s) (headers_apis s)
                    (registration_code_payload s d) s of
               (response_post_registration_code, s1) \<Rightarrow>
                 (case loads_content response_post_registration_code of
                    Inl e \<Rightarrow> (Inl e, s1)
                  | Inr response_json_registration_code \<Rightarrow>
                      (case getitem response_json_registration_code (lit ''_id'') of
                         Inl e \<Rightarrow> (Inl e, s1)
                       | Inr registration_code_id \<Rightarrow>
                           (let s2 = s1\<lparr>events := events s1 @ [Sleep 1]\<rparr>
                            in case post_api_call w (api_post_onasport_device s2) (headers_apis s2)
                                      (device_payload s2 d registration_code_id) s2 of
                                 (response_post_device, s3) \<Rightarrow> (Inr (), s3))))))"

text \<open>The loop of \<open>template_id\<close>: the right-hand side \<open>organization["_id"]\<close> is read
  first, then the key; the entries stored before an exception stay.\<close>

fun store_organizations ::
  "json list \<Rightarrow> (json \<rightharpoonup> json) \<Rightarrow> (exn + unit) \<times> (json \<rightharpoonup> json)" where
  "store_organizations [] dic = (Inr (), dic)"
| "store_organizations (organization # rest) dic =
     (case getitem organization (lit ''_id'') of
        Inl e \<Rightarrow> (Inl e, dic)
      | Inr v \<Rightarrow>
          (case getitem organization (lit ''_name'') of
             Inl e \<Rightarrow> (Inl e, dic)
           | Inr k \<Rightarrow>
               if hashable k then store_organizations rest (dic(k \<mapsto> v))
               else (Inl TypeError, dic)))"

definition template_id :: "world \<Rightarrow> pystate \<Rightarrow> (exn + unit) \<times> pystate" where
  "template_id w s =
     except_RequestException 14
       (case get_api_call w (api_get_template_onasport_device s) (headers_apis s) s of
          (response_onasport_id_template, s1) \<Rightarrow>
            (case loads_content response_onasport_id_template of
               Inl e \<Rightarrow> (Inl e, s1)
             | Inr response_json_onasport_id_template \<Rightarrow>
                 (case device_template_id response_json_onasport_id_template of
                    Inl e \<Rightarrow> (Inl e, s1)
                  | Inr tid \<Rightarrow>
                      (let s2 = s1\<lparr>onasport_device_template_id := tid\<rparr>
                       in case getitem (response_json_list_organizations s2) (lit ''data'') of
                            Inl e \<Rightarrow> (Inl e, s2)
                          | Inr organizations \<Rightarrow>
                              (case iterate organizations of
                                 Inl e \<Rightarrow> (Inl e, s2)
                               | Inr items \<Rightarrow>
                                   (case store_organizations items (ORGANIZATIONS_DIC s2) of
                                      (Inl e, dic) \<Rightarrow> (Inl e, s2\<lparr>ORGANIZATIONS_DIC := dic\<rparr>)
                                    | (Inr u, dic) \<Rightarrow>
                                        add_device w (data s2)
                                          (s2\<lparr>ORGANIZATIONS_DIC := dic\<rparr>)))))))"

definition registration_id :: "world \<Rightarrow> pystate \<Rightarrow> (exn + unit) \<times> pystate" where
  "registration_id w s =
     except_RequestException 13
       (case get_api_call w (api_get_template_registration_code s) (headers_apis s) s of
          (response_template_registration_code, s1) \<Rightarrow>
            (case loads_content response_template_registration_code of
               Inl e \<Rightarrow> (Inl e, s1)
             | Inr response_json_template_registration_code \<Rightarrow>
                 (case first_template_id response_json_template_registration_code of
                    Inl e \<Rightarrow> (Inl e, s1)
                  | Inr tid \<Rightarrow> template_id w (s1\<lparr>template_id_registration_code := tid\<rparr>))))"

definition get_organizations :: "world \<Rightarrow> pystate \<Rightarrow> (exn + unit) \<times> pystate" where
  "get_organizations w s =
     except_RequestException 12
       (case get_api_call w (api_get_organizations s) (headers_apis s) s of
          (response_list_organizations, s1) \<Rightarrow>
            (case loads_content response_list_organizations of
               Inl e \<Rightarrow> (Inl e, s1)
             | Inr j \<Rightarrow> registration_id w (s1\<lparr>response_json_list_organizations := j\<rparr>)))"

text \<open>\<open>signin\<close> sends the login request itself, with the headers of the login, which
  carry no token.\<close>

definition signin :: "world \<Rightarrow> pystate \<Rightarrow> (exn + unit) \<times> pystate" where
  "signin w s =
     except_RequestException 11
       (let s1 = s\<lparr>events := events s @ [HttpPost (api_login s) None (payload s)]\<rparr>
        in case raise_for_status (server w (api_login s)) of
             Inl e \<Rightarrow> (Inl e, s1)
           | Inr response \<Rightarrow>
               (case response_dot_json w response of
                  Inl e \<Rightarrow> (Inl e, s1)
                | Inr response_json \<Rightarrow>
                    (case access_token response_json of
                       Inl e \<Rightarrow> (Inl e, s1)
                     | Inr token_authorization \<Rightarrow>
                         get_organizations w (s1\<lparr>headers_apis := token_authorization\<rparr>))))"

definition login_url :: "pystr \<Rightarrow> pystr" where
  "login_url base_url = base_url @ lit ''/ums/v2/users/login''"

definition registration_codes_url :: "pystr \<Rightarrow> pystr" where
  "registration_codes_url base_url = base_url @ lit ''/organization/v1/registration-codes''"

definition organizations_url :: "pystr \<Rightarrow> pystr" where
  "organizations_url base_url = base_url @
     lit ''/organization/v1/organizations?searchRequest=%7B%22limit%22%3A30%2C%22filter%22%3A%7B%7D%2C%22freeTextSearch%22%3A%22%22%7D''"

definition template_registration_code_url :: "pystr \<Rightarrow> pystr" where
  "template_registration_code_url base_url = base_url @
     lit ''/settings/v1/templates/minimized?searchRequest=%7B%22filter%22%3A%7B%22entityTypeName%22%3A%7B%22in%22%3A%5B%22registration-code%22%5D%7D%7D%2C%22limit%22%3A1000%7D''"

definition template_onasport_device_url :: "pystr \<Rightarrow> pystr" where
  "template_onasport_device_url base_url = base_url @
     lit ''/settings/v1/portal-builder/MANUFACTURER_PORTAL/views-full-info/TEMPLATE_EXPAND?entityTypeName=device&templateId=0acb3d5b-c70b-4101-b8f7-be17c452fbc5''"

definition devices_url :: "pystr \<Rightarrow> pystr" where
  "devices_url base_url = base_url @ lit ''/device/v2/devices''"

text \<open>The local \<open>base_url\<close> of \<open>define_apis\<close>: unbound for any other environment.\<close>

definition base_url_of :: "pyval \<Rightarrow> pystr option" where
  "base_url_of environment =
     (if environment = PStr (lit ''development'') then Some URL_DEV
      else if environment = PStr (lit ''production'') then Some URL_PROD
      else None)"

definition define_apis ::
  "world \<Rightarrow> pyval \<Rightarrow> pyval \<Rightarrow> pyval \<Rightarrow> pystate \<Rightarrow> (exn + unit) \<times> pystate" where
  "define_apis w username password environment s =
     (case (let s1 = s\<lparr>payload := JObj [(lit ''username'', to_json username),
                                         (lit ''password'', to_json password)]\<rparr>
            in case base_url_of environment of
                 None \<Rightarrow> (Inl UnboundLocalError, s1)
               | Some base_url \<Rightarrow>
                   signin w
                     (s1\<lparr>api_login := login_url base_url,
                         api_post_registration_code := registration_codes_url base_url,
                         api_get_organizations := organizations_url base_url,
                         api_get_template_registration_code := template_registration_code_url base_url,
                         api_get_template_onasport_device := template_onasport_device_url base_url,
                         api_post_onasport_device := devices_url base_url\<rparr>)) of
        (Inl e, s2) \<Rightarrow>
          if is_Exception e
          then (Inr (), s2\<lparr>stdout := stdout s2 @ [PrintException e], EXECUTION_STATUS := 10\<rparr>)
          else (Inl e, s2)
      | (Inr u, s2) \<Rightarrow> (Inr u, s2))"

section \<open>Main flow\<close>

text \<open>
  The handler of \<open>main\<close>. It catches an \<open>Exception\<close> only. The local \<open>output_directory\<close>
  is unbound when the exception came before its assignment, and reading it in the handler
  raises in turn.
\<close>

definition main_except ::
  "world \<Rightarrow> exn \<Rightarrow> pyval option \<Rightarrow> pystate \<Rightarrow> (exn + pystr option) \<times> pystate" where
  "main_except w e output_directory s =
     (if \<not> is_Exception e then (Inl e, s)
      else (let s1 = s\<lparr>EXECUTION_STATUS := 16\<rparr>
            in case output_directory of
                 None \<Rightarrow> (Inl UnboundLocalError, s1)
               | Some dir \<Rightarrow>
                   (case manage_data_json w (data s1) dir s1 of
                      (path_to_print, s2) \<Rightarrow> (Inr path_to_print, s2))))"

definition main :: "world \<Rightarrow> pystate \<Rightarrow> (exn + pystr option) \<times> pystate" where
  "main w s =
     (case parse_arguments w s of
        (Inl e, s1) \<Rightarrow> main_except w e None s1
      | (Inr parsed_object, s1) \<Rightarrow>
          (case parsed_object_to_dict parsed_object s1 of
             (dt, s2) \<Rightarrow>
               (let s3 = s2\<lparr>data := dt\<rparr>
                in case dt of
                     None \<Rightarrow> main_except w AttributeError None s3
                   | Some d \<Rightarrow>
                       (let output_directory = dict_get d OutputDirectory
                        in case (if EXECUTION_STATUS s3 = 0
                                 then define_apis w (dict_get d Username) (dict_get d Password)
                                        (dict_get d Environment) s3
                                 else (Inr (), s3)) of
                             (Inl e, s4) \<Rightarrow> main_except w e (Some output_directory) s4
                           | (Inr u, s4) \<Rightarrow>
                               (case manage_data_json w (data s4) output_directory s4 of
                                  (path_to_print, s5) \<Rightarrow> (Inr path_to_print, s5))))))"

text \<open>
  The script: \<open>print(main())\<close>. The exit code of the process is 0 when \<open>main\<close> returns,
  the code of a \<open>SystemExit\<close>, and 1 for any other exception that leaves \<open>main\<close>.
\<close>

definition program :: "world \<Rightarrow> nat \<times> pystate" where
  "program w =
     (case main w (initial w) of
        (Inr path_to_print, s) \<Rightarrow> (0, s\<lparr>stdout := stdout s @ [PrintValue path_to_print]\<rparr>)
      | (Inl e, s) \<Rightarrow> (case e of SystemExit code \<Rightarrow> (code, s) | _ \<Rightarrow> (1, s)))"

section \<open>Concrete worlds for the examples\<close>

text \<open>
  The numeric types of the code points below 256, which every version of Unicode gives
  alike: the ASCII digits are decimals, the superscripts one, two and three are digits
  only. The examples use no other code point.
\<close>

definition latin1_numeric_type :: "nat \<Rightarrow> numeric_type" where
  "latin1_numeric_type c =
     (if 48 \<le> c \<and> c \<le> 57 then Decimal (c - 48)
      else if c = 178 \<or> c = 179 \<or> c = 185 then Digit
      else NoDigit)"

text \<open>\<open>posixpath.join\<close> of two strings and \<open>posixpath.dirname\<close>; 47 is the slash.\<close>

definition posix_join :: "pystr \<Rightarrow> pystr \<Rightarrow> pystr" where
  "posix_join a b =
     (if b \<noteq> [] \<and> hd b = 47 then b
      else if a = [] \<or> last a = 47 then a @ b
      else a @ [47] @ b)"

definition posix_dirname :: "pystr \<Rightarrow> pystr" where
  "posix_dirname p =
     (let head = rev (dropWhile (\<lambda>c. c \<noteq> 47) (rev p))
      in if head \<noteq> [] \<and> \<not> list_all (\<lambda>c. c = 47) head
         then rev (dropWhile (\<lambda>c. c = 47) (rev head))
         else head)"

text \<open>A complete command line for the development environment, with a given serial
  number and with or without \<open>-output\<close>.\<close>

definition example_tokens :: "pystr \<Rightarrow> pystr option \<Rightarrow> token list" where
  "example_tokens sn out =
     [Opt Environment (lit ''development''), Opt Username (lit ''u''), Opt Password (lit ''p''),
      Opt SerialNumber sn, Opt Organization (lit ''Acme''),
      Opt RegistrationCode (lit ''RC''), Opt Description (lit ''ONAS0000''),
      Opt Version (lit ''2.0.0'')]
     @ (case out of None \<Rightarrow> [] | Some d \<Rightarrow> [Opt OutputDirectory d])"

text \<open>A disk whose only directory is \<open>/out\<close>, and a run on 2024-06-01 on a POSIX system.\<close>

definition example_disk :: filesystem where
  "example_disk = \<lparr>dirs = {lit ''/out''}, files = Map.empty, refused = {}\<rparr>"

definition example_world :: "token list \<Rightarrow> (pystr \<Rightarrow> http_result) \<Rightarrow> filesystem \<Rightarrow> world" where
  "example_world ts srv dsk =
     \<lparr>argv = ts, today = \<lparr>year = 2024, month = 6, day = 1\<rparr>,
      unicode_numeric_type = latin1_numeric_type,
      os_path_join = posix_join, os_path_dirname = posix_dirname,
      disk = dsk, server = srv, json_error_is_request_exception = True\<rparr>"

text \<open>Ten times the superscript two, code point 178.\<close>

definition ten_superscript_twos :: pystr where
  "ten_superscript_twos = [178, 178, 178, 178, 178, 178, 178, 178, 178, 178]"


section \<open>Notions of the statements\<close>

text \<open>A flag is given on the command line when one of the tokens names it.\<close>

fun names :: "flag \<Rightarrow> token \<Rightarrow> bool" where
  "names f (Opt g v) = (g = f)"
| "names f t = False"

definition given :: "flag \<Rightarrow> token list \<Rightarrow> bool" where
  "given f ts = list_ex (names f) ts"

text \<open>A call keeps the files and \<open>data\<close> and raises, if it raises, an \<open>Exception\<close>.\<close>

definition kept :: "pystate \<Rightarrow> (exn + unit) \<times> pystate \<Rightarrow> bool" where
  "kept s r = (fs (snd r) = fs s \<and> data (snd r) = data s
      \<and> (case fst r of Inl e \<Rightarrow> is_Exception e | Inr u \<Rightarrow> True))"

text \<open>The namespace that argparse builds from \<open>example_tokens\<close>.\<close>

definition example_namespace :: "pystr \<Rightarrow> pystr option \<Rightarrow> namespace" where
  "example_namespace sn out =
     (case out of
        None \<Rightarrow>
          [Environment \<mapsto> lit ''development'', Username \<mapsto> lit ''u'', Password \<mapsto> lit ''p'',
           SerialNumber \<mapsto> sn, Organization \<mapsto> lit ''Acme'', RegistrationCode \<mapsto> lit ''RC'',
           Description \<mapsto> lit ''ONAS0000'', Version \<mapsto> lit ''2.0.0'']
      | Some d \<Rightarrow>
          [Environment \<mapsto> lit ''development'', Username \<mapsto> lit ''u'', Password \<mapsto> lit ''p'',
           SerialNumber \<mapsto> sn, Organization \<mapsto> lit ''Acme'', RegistrationCode \<mapsto> lit ''RC'',
           Description \<mapsto> lit ''ONAS0000'', Version \<mapsto> lit ''2.0.0'', OutputDirectory \<mapsto> d])"

text \<open>Runs that write their record to one path, one after the other: each run has its
  own data and status and finds the file system as the run before left it.\<close>

fun rewrite :: "world \<Rightarrow> pystr \<Rightarrow> (pydict \<times> int) list \<Rightarrow> filesystem \<Rightarrow> filesystem" where
  "rewrite w p [] f = f"
| "rewrite w p (run # runs) f =
     rewrite w p runs
       (fs (generate_json w (Some (fst run)) p
              ((initial w)\<lparr>EXECUTION_STATUS := snd run, fs := f\<rparr>)))"

text \<open>The example command line with every login answered by status 401 and no body;
  with a login answered by status 200 and the empty object; and a command line with the
  serial number alone.\<close>

definition world_401 :: "pystr option \<Rightarrow> world" where
  "world_401 out = example_world (example_tokens (lit ''1234567890'') out) (\<lambda>url. Resp 401 None) example_disk"


definition world_only_serial :: world where
  "world_only_serial = example_world [Opt SerialNumber (lit ''1234567890'')] (\<lambda>url. NetError) example_disk"

text \<open>The example command line with every request answered by status 300 and the
  empty object.\<close>

definition world_300 :: world where
  "world_300 = example_world (example_tokens (lit ''1234567890'') (Some (lit ''/out'')))
                 (\<lambda>url. Resp 300 (Some (JObj []))) example_disk"

text \<open>The example command line with an output directory that does not exist.\<close>

definition world_no_directory :: world where
  "world_no_directory = example_world (example_tokens (lit ''1234567890'') (Some (lit ''/data/out'')))
                      (\<lambda>url. Resp 401 None) example_disk"

text \<open>A server that accepts the login, lists one organization, Acme, gives both templates
  and creates the device; the answer to the creation of the registration code is a
  parameter. \<open>created\<close> is the answer that carries the identifier of the new code.\<close>

definition example_server :: "http_result \<Rightarrow> pystr \<Rightarrow> http_result" where
  "example_server registration_code_reply url =
     (if url = login_url URL_DEV
        then Resp 200 (Some (JObj [(lit ''accessJwt'', JObj [(lit ''token'', JStr (lit ''tok''))])]))
      else if url = organizations_url URL_DEV
        then Resp 200 (Some (JObj [(lit ''data'',
               JArr [JObj [(lit ''_name'', JStr (lit ''Acme'')), (lit ''_id'', JStr (lit ''org-1''))]])]))
      else if url = template_registration_code_url URL_DEV
        then Resp 200 (Some (JObj [(lit ''data'', JArr [JObj [(lit ''id'', JStr (lit ''tpl-rc''))]])]))
      else if url = template_onasport_device_url URL_DEV
        then Resp 200 (Some (JObj [(lit ''template'', JObj [(lit ''id'', JStr (lit ''tpl-dev''))])]))
      else if url = registration_codes_url URL_DEV then registration_code_reply
      else if url = devices_url URL_DEV then Resp 201 (Some (JObj [(lit ''_id'', JStr (lit ''1234567890''))]))
      else NetError)"

definition world_upload :: "http_result \<Rightarrow> world" where
  "world_upload registration_code_reply =
     example_world (example_tokens (lit ''1234567890'') (Some (lit ''/out'')))
       (example_server registration_code_reply) example_disk"

definition created :: http_result where
  "created = Resp 201 (Some (JObj [(lit ''_id'', JStr (lit ''rc-1''))]))"

text \<open>The state when \<open>add_device\<close> is called in the development environment, with a
  directory of organizations that does not list Acme.\<close>

definition state_before_add_device :: "world \<Rightarrow> pystate" where
  "state_before_add_device w =
     (initial w)\<lparr>ORGANIZATIONS_DIC := [JStr (lit ''Other'') \<mapsto> JStr (lit ''org-9'')],
                 api_post_registration_code := registration_codes_url URL_DEV,
                 api_post_onasport_device := devices_url URL_DEV,
                 headers_apis := JStr (lit ''tok''),
                 template_id_registration_code := JStr (lit ''tpl-rc''),
                 onasport_device_template_id := JStr (lit ''tpl-dev'')\<rparr>"







section \<open>Evaluation\<close>

lemmas model_defs =
  main_def main_except_def parse_arguments_def parsed_object_to_dict_def vars_def
  define_apis_def signin_def get_organizations_def registration_id_def template_id_def
  add_device_def get_api_call_def post_api_call_def except_RequestException_def
  raise_for_status_def response_dot_json_def loads_content_def access_token_def
  first_template_id_def device_template_id_def organization_id_def
  registration_code_payload_def device_payload_def
  manage_data_json_def generate_json_def traceability_record_def format_filename_def
  path_join_def open_w_def json_dump_def data_get_def dict_get_def dict_get_default_def
  check_serial_number_def isdigit_def py_int_def required_flags_def base_url_of_def
  DATE_def strftime_ymd_def two_digits_def initial_def program_def
  SERIAL_NUMBER_LENGTH_ONASPORT_def MIN_SERIAL_NUMBER_ONASPORT_def
  MAX_SERIAL_NUMBER_ONASPORT_def
  login_url_def registration_codes_url_def organizations_url_def
  template_registration_code_url_def template_onasport_device_url_def devices_url_def
  URL_DEV_def URL_PROD_def lit_def

lemmas example_defs =
  example_world_def example_tokens_def example_disk_def latin1_numeric_type_def
  posix_join_def posix_dirname_def ten_superscript_twos_def

section \<open>The serial number check\<close>

lemma decimal_value_isdigit:
  "decimal_value w s acc = Some n \<Longrightarrow> list_all (\<lambda>c. unicode_numeric_type w c \<noteq> NoDigit) s"
  by (induction s arbitrary: acc) (auto split: numeric_type.splits)

text \<open>A string of ten decimals with a value in the range passes: the status is untouched.\<close>

lemma check_serial_number_valid:
  assumes "length sn = 10"
      and "decimal_value w sn 0 = Some n"
      and "1000000000 \<le> n" and "n \<le> 9999999999"
  shows "check_serial_number w sn s = (Inr sn, s)"
proof -
  from assms(1) have ne: "sn \<noteq> []" by auto
  from assms(2) have "list_all (\<lambda>c. unicode_numeric_type w c \<noteq> NoDigit) sn"
    by (rule decimal_value_isdigit)
  with ne have "isdigit w sn" by (simp add: isdigit_def)
  moreover from assms(2) ne have "py_int w sn = Inr (int n)" by (simp add: py_int_def)
  ultimately show ?thesis
    using assms(1,3,4)
    by (simp add: check_serial_number_def SERIAL_NUMBER_LENGTH_ONASPORT_def
        MIN_SERIAL_NUMBER_ONASPORT_def MAX_SERIAL_NUMBER_ONASPORT_def)
qed

text \<open>A string with a character that is no digit, of another length, or of ten decimals
  with a value out of the range is returned with status 5.\<close>

lemma check_serial_number_invalid:
  assumes "\<not> isdigit w sn \<or> length sn \<noteq> 10
           \<or> (\<exists>n. decimal_value w sn 0 = Some n \<and> (n < 1000000000 \<or> 9999999999 < n))"
  shows "check_serial_number w sn s = (Inr sn, s\<lparr>EXECUTION_STATUS := 5\<rparr>)"
  using assms
  by (auto simp: check_serial_number_def py_int_def SERIAL_NUMBER_LENGTH_ONASPORT_def
      MIN_SERIAL_NUMBER_ONASPORT_def MAX_SERIAL_NUMBER_ONASPORT_def isdigit_def)

text \<open>What is left: ten digits, one of which is not a decimal. There \<open>int\<close> raises.\<close>

lemma check_serial_number_raises:
  assumes "isdigit w sn" and "length sn = 10" and "decimal_value w sn 0 = None"
  shows "check_serial_number w sn s = (Inl ValueError, s)"
  using assms
  by (simp add: check_serial_number_def py_int_def SERIAL_NUMBER_LENGTH_ONASPORT_def)

text \<open>
  Claim C2. The claim: a string of ten decimal digits with a value from 1000000000 to
  9999999999 leaves the status at 0, and every other string gets a non-zero status and is
  returned without an exception. The second half fails on the string of ten superscript
  twos (code point 178): \<open>isdigit\<close> holds, the length is ten, and \<open>int\<close> raises
  \<open>ValueError\<close> inside \<open>check_serial_number\<close>, with the status still 0. On the command
  line argparse turns this into a usage error: the process exits with code 2 and writes
  no file.
\<close>

theorem check_serial_number_superscript_digits:
  "check_serial_number (example_world [] (\<lambda>url. NetError) example_disk) ten_superscript_twos
     (initial (example_world [] (\<lambda>url. NetError) example_disk))
   = (Inl ValueError, initial (example_world [] (\<lambda>url. NetError) example_disk))
   \<and> isdigit (example_world [] (\<lambda>url. NetError) example_disk) ten_superscript_twos
   \<and> fst (program (example_world (example_tokens ten_superscript_twos (Some (lit ''/out'')))
                     (\<lambda>url. NetError) example_disk)) = 2
   \<and> files (fs (snd (program (example_world (example_tokens ten_superscript_twos (Some (lit ''/out'')))
                     (\<lambda>url. NetError) example_disk)))) = Map.empty"
  by (simp add: model_defs example_defs)

section \<open>What every call of the chain keeps\<close>

lemma kept_except: "kept s r \<Longrightarrow> kept s (except_RequestException c r)"
  by (cases r) (auto simp: kept_def except_RequestException_def split: sum.splits)

lemma kept_raise: "is_Exception e \<Longrightarrow> fs s' = fs s \<Longrightarrow> data s' = data s \<Longrightarrow> kept s (Inl e, s')"
  by (simp add: kept_def)

lemma kept_trans: "kept s' r \<Longrightarrow> fs s' = fs s \<Longrightarrow> data s' = data s \<Longrightarrow> kept s r"
  by (simp add: kept_def)

lemma raise_for_status_exn: "raise_for_status r = Inl e \<Longrightarrow> is_Exception e"
  by (auto simp: raise_for_status_def split: http_result.splits if_splits)

lemma loads_content_exn: "loads_content r = Inl e \<Longrightarrow> is_Exception e"
  by (auto simp: loads_content_def split: option.splits)

lemma getitem_exn: "getitem j k = Inl e \<Longrightarrow> is_Exception e"
  by (cases j) (auto split: option.splits)

lemma getitem0_exn: "getitem0 j = Inl e \<Longrightarrow> is_Exception e"
  by (cases j) (auto split: list.splits)

lemma iterate_exn: "iterate j = Inl e \<Longrightarrow> is_Exception e"
  by (cases j) auto

lemma access_token_exn: "access_token j = Inl e \<Longrightarrow> is_Exception e"
  by (auto simp: access_token_def split: sum.splits dest: getitem_exn)

lemma first_template_id_exn: "first_template_id j = Inl e \<Longrightarrow> is_Exception e"
  by (auto simp: first_template_id_def split: sum.splits dest: getitem_exn getitem0_exn)

lemma device_template_id_exn: "device_template_id j = Inl e \<Longrightarrow> is_Exception e"
  by (auto simp: device_template_id_def split: sum.splits dest: getitem_exn)

lemma response_dot_json_exn: "response_dot_json w b = Inl e \<Longrightarrow> is_Exception e"
  by (auto simp: response_dot_json_def split: option.splits if_splits)

lemma store_organizations_exn: "store_organizations xs dic = (Inl e, dic') \<Longrightarrow> is_Exception e"
  by (induction xs arbitrary: dic) (auto split: sum.splits if_splits dest: getitem_exn)

lemma get_api_call_kept:
  "get_api_call w url h s = (r, s') \<Longrightarrow> fs s' = fs s \<and> data s' = data s"
  by (auto simp: get_api_call_def Let_def split: sum.splits)

lemma post_api_call_kept:
  "post_api_call w url h p s = (r, s') \<Longrightarrow> fs s' = fs s \<and> data s' = data s"
  by (auto simp: post_api_call_def Let_def split: sum.splits)

lemma add_device_kept: "kept s (add_device w dt s)"
  unfolding add_device_def
  by (rule kept_except)
     (auto simp: kept_def Let_def split: option.splits prod.splits sum.splits
           dest!: post_api_call_kept dest: loads_content_exn getitem_exn)

lemma template_id_kept: "kept s (template_id w s)"
  unfolding template_id_def
  apply (rule kept_except)
  apply (auto simp: Let_def split: option.splits prod.splits sum.splits
           dest!: get_api_call_kept 
           intro!: kept_raise kept_trans[OF add_device_kept]
           dest: loads_content_exn getitem_exn device_template_id_exn iterate_exn store_organizations_exn)
  done

lemma registration_id_kept: "kept s (registration_id w s)"
  unfolding registration_id_def
  apply (rule kept_except)
  apply (auto simp: Let_def split: option.splits prod.splits sum.splits
           dest!: get_api_call_kept 
           intro!: kept_raise kept_trans[OF template_id_kept]
           dest: loads_content_exn first_template_id_exn)
  done

lemma get_organizations_kept: "kept s (get_organizations w s)"
  unfolding get_organizations_def
  apply (rule kept_except)
  apply (auto simp: Let_def split: option.splits prod.splits sum.splits
           dest!: get_api_call_kept 
           intro!: kept_raise kept_trans[OF registration_id_kept]
           dest: loads_content_exn)
  done

lemma signin_kept: "kept s (signin w s)"
  unfolding signin_def
  apply (rule kept_except)
  apply (auto simp: Let_def split: option.splits prod.splits sum.splits
           intro!: kept_raise kept_trans[OF get_organizations_kept]
           dest: raise_for_status_exn response_dot_json_exn access_token_exn)
  done

lemma define_apis_returns:
  "\<exists>s'. define_apis w u p e s = (Inr (), s') \<and> fs s' = fs s \<and> data s' = data s"
proof -
  have k: "kept s0 (signin w s0)" for s0 by (rule signin_kept)
  show ?thesis
    unfolding define_apis_def Let_def
    apply (cases "base_url_of e")
     apply simp
    subgoal for b
      using k[of "s\<lparr>payload := JObj [(lit ''username'', to_json u), (lit ''password'', to_json p)],
           api_login := login_url b,
           api_post_registration_code := registration_codes_url b,
           api_get_organizations := organizations_url b,
           api_get_template_registration_code := template_registration_code_url b,
           api_get_template_onasport_device := template_onasport_device_url b,
           api_post_onasport_device := devices_url b\<rparr>"]
      by (auto simp: kept_def split: prod.splits sum.splits)
    done
qed

section \<open>The parser\<close>

lemma status_update_self: "\<exists>c. s = s\<lparr>EXECUTION_STATUS := c\<rparr>"
  by (rule exI[of _ "EXECUTION_STATUS s"]) simp

lemma check_serial_number_state:
  "check_serial_number w v s = (r, s') \<Longrightarrow> \<exists>c. s' = s\<lparr>EXECUTION_STATUS := c\<rparr>"
  by (auto simp: check_serial_number_def status_update_self split: if_splits sum.splits)

lemma check_serial_number_value:
  "check_serial_number w v s = (Inr v', s') \<Longrightarrow> v' = v"
  by (auto simp: check_serial_number_def split: if_splits sum.splits)

lemma check_serial_number_exn:
  "check_serial_number w v s = (Inl e, s') \<Longrightarrow> e = ValueError"
  by (auto simp: check_serial_number_def py_int_def split: if_splits sum.splits option.splits)

lemma parse_args_state:
  "parse_args w ts ns u s = (r, s') \<Longrightarrow> \<exists>c. s' = s\<lparr>EXECUTION_STATUS := c\<rparr>"
proof (induction ts arbitrary: ns u s)
  case Nil
  then show ?case by (auto simp: status_update_self split: if_splits)
next
  case (Cons t ts)
  have id: "s = s\<lparr>EXECUTION_STATUS := EXECUTION_STATUS s\<rparr>" by simp
  show ?case
  proof (cases t)
    case (Opt f v)
    show ?thesis
    proof (cases "f = SerialNumber")
      case True
      obtain r1 s1 where c: "check_serial_number w v s = (r1, s1)"
        by (cases "check_serial_number w v s")
      then obtain c1 where s1: "s1 = s\<lparr>EXECUTION_STATUS := c1\<rparr>"
        using check_serial_number_state by blast
      show ?thesis
      proof (cases r1)
        case (Inl e)
        with Cons.prems Opt True c have "s' = s1" by (auto split: if_splits)
        with s1 show ?thesis by blast
      next
        case (Inr v')
        with Cons.prems Opt True c
        have "parse_args w ts (ns(f \<mapsto> v')) u s1 = (r, s')" by simp
        then obtain c2 where "s' = s1\<lparr>EXECUTION_STATUS := c2\<rparr>"
          using Cons.IH by blast
        with s1 have "s' = s\<lparr>EXECUTION_STATUS := c2\<rparr>" by simp
        then show ?thesis by blast
      qed
    next
      case False
      show ?thesis
      proof (cases "f = Environment \<and> v \<noteq> lit ''production'' \<and> v \<noteq> lit ''development''")
        case True
        with Cons.prems Opt False have "s' = s" by simp
        with id show ?thesis by metis
      next
        case no: False
        with Cons.prems Opt False
        have "parse_args w ts (ns(f \<mapsto> v)) u s = (r, s')" by simp
        then show ?thesis using Cons.IH by blast
      qed
    qed
  next
    case Help
    with Cons.prems have "s' = s" by simp
    with id show ?thesis by metis
  next
    case Unrecognized
    with Cons.prems have "parse_args w ts ns True s = (r, s')" by simp
    then show ?thesis using Cons.IH by blast
  qed
qed

lemma parse_args_absent:
  "parse_args w ts ns u s = (Inr ns', s') \<Longrightarrow> \<not> given f ts \<Longrightarrow> ns' f = ns f"
proof (induction ts arbitrary: ns u s)
  case Nil
  then show ?case by (auto split: if_splits)
next
  case (Cons t ts)
  from Cons.prems(2) have rest: "\<not> given f ts" by (simp add: given_def)
  show ?case
  proof (cases t)
    case (Opt g v)
    with Cons.prems(2) have gf: "g \<noteq> f" by (simp add: given_def)
    show ?thesis
    proof (cases "g = SerialNumber")
      case True
      obtain r1 s1 where c: "check_serial_number w v s = (r1, s1)"
        by (cases "check_serial_number w v s")
      show ?thesis
      proof (cases r1)
        case (Inl e)
        with Cons.prems(1) Opt True c show ?thesis by (auto split: if_splits)
      next
        case (Inr v')
        with Cons.prems(1) Opt True c
        have "parse_args w ts (ns(g \<mapsto> v')) u s1 = (Inr ns', s')" by simp
        from Cons.IH[OF this rest] gf show ?thesis by simp
      qed
    next
      case False
      with Cons.prems(1) Opt
      have "parse_args w ts (ns(g \<mapsto> v)) u s = (Inr ns', s')" by (auto split: if_splits)
      from Cons.IH[OF this rest] gf show ?thesis by simp
    qed
  next
    case Help
    with Cons.prems(1) show ?thesis by simp
  next
    case Unrecognized
    with Cons.prems(1) have "parse_args w ts ns True s = (Inr ns', s')" by simp
    from Cons.IH[OF this rest] show ?thesis .
  qed
qed

lemma parse_args_exit:
  "parse_args w ts ns u s = (Inl e, s') \<Longrightarrow> e = SystemExit 0 \<or> e = SystemExit 2"
proof (induction ts arbitrary: ns u s)
  case Nil
  then show ?case by (auto split: if_splits)
next
  case (Cons t ts)
  show ?case
  proof (cases t)
    case (Opt g v)
    show ?thesis
    proof (cases "g = SerialNumber")
      case True
      obtain r1 s1 where c: "check_serial_number w v s = (r1, s1)"
        by (cases "check_serial_number w v s")
      show ?thesis
      proof (cases r1)
        case (Inl e1)
        with c have "e1 = ValueError" using check_serial_number_exn by blast
        with Inl Cons.prems Opt True c show ?thesis by auto
      next
        case (Inr v')
        with Cons.prems Opt True c
        have "parse_args w ts (ns(g \<mapsto> v')) u s1 = (Inl e, s')" by simp
        then show ?thesis by (rule Cons.IH)
      qed
    next
      case False
      with Cons.prems Opt show ?thesis by (auto split: if_splits dest: Cons.IH)
    qed
  next
    case Help
    with Cons.prems show ?thesis by simp
  next
    case Unrecognized
    with Cons.prems have "parse_args w ts ns True s = (Inl e, s')" by simp
    then show ?thesis by (rule Cons.IH)
  qed
qed

lemma parse_arguments_cases:
  "parse_arguments w s = (r, s') \<Longrightarrow>
     (\<exists>ns. r = Inr (Some ns) \<and> parse_args w (argv w) Map.empty False s = (Inr ns, s'))
     \<or> r = Inl (SystemExit 0) \<or> r = Inl (SystemExit 2)"
  by (auto simp: parse_arguments_def split: prod.splits sum.splits if_splits dest: parse_args_exit)

lemma parse_arguments_initial:
  assumes "parse_arguments w (initial w) = (r, s1)"
  shows "s1 = (initial w)\<lparr>EXECUTION_STATUS := EXECUTION_STATUS s1\<rparr>"
proof -
  obtain r0 s0 where p: "parse_args w (argv w) Map.empty False (initial w) = (r0, s0)"
    by (cases "parse_args w (argv w) Map.empty False (initial w)")
  then obtain c where c: "s0 = (initial w)\<lparr>EXECUTION_STATUS := c\<rparr>"
    using parse_args_state by blast
  from assms p have "s1 = s0"
    by (cases r0) (auto simp: parse_arguments_def split: if_splits dest: parse_args_exit)
  with c show ?thesis by simp
qed

lemma example_parse:
  "parse_arguments (example_world (example_tokens (lit ''1234567890'') out) srv dsk) s
   = (Inr (Some (example_namespace (lit ''1234567890'') out)), s)"
  by (cases out) (simp_all add: model_defs example_defs example_namespace_def)


section \<open>A run without an output directory\<close>

lemma manage_data_json_None:
  "manage_data_json w (Some d) PNone s = (None, s\<lparr>EXECUTION_STATUS := 3\<rparr>)"
  by (simp add: manage_data_json_def format_filename_def path_join_def)

text \<open>
  Claim C10, as amended. Whenever argparse accepts a command line without \<open>-output\<close>, the value
  of \<open>OutputDirectory\<close> is \<open>None\<close>, joining it with any file name raises a
  \<open>TypeError\<close>, which \<open>manage_data_json\<close> catches: the run ends with status 3, the
  files are those the run found, and the last thing printed is \<open>None\<close>; the process
  exits with code 0.
\<close>

theorem output_omitted:
  assumes parse: "parse_arguments w (initial w) = (Inr (Some ns), s1)"
      and omitted: "\<not> given OutputDirectory (argv w)"
  shows "dict_get (vars ns) OutputDirectory = PNone
       \<and> path_join w (dict_get (vars ns) OutputDirectory) filename = Inl TypeError
       \<and> fst (program w) = 0
       \<and> EXECUTION_STATUS (snd (program w)) = 3
       \<and> fs (snd (program w)) = disk w
       \<and> last (stdout (snd (program w))) = PrintValue None"
proof -
  from parse have pa: "parse_args w (argv w) Map.empty False (initial w) = (Inr ns, s1)"
    by (auto dest: parse_arguments_cases)
  from parse_args_absent[OF pa omitted] have none: "ns OutputDirectory = None" by simp
  then have out: "dict_get (vars ns) OutputDirectory = PNone"
    by (simp add: dict_get_def vars_def)
  from parse_arguments_initial[OF parse] have fs1: "fs s1 = disk w"
    by (metis initial_def pystate.select_convs(16) pystate.update_convs(1) pystate.surjective)
  let ?s3 = "s1\<lparr>data := Some (vars ns)\<rparr>"
  have "\<exists>s4. (if EXECUTION_STATUS ?s3 = 0
               then define_apis w (dict_get (vars ns) Username) (dict_get (vars ns) Password)
                      (dict_get (vars ns) Environment) ?s3
               else (Inr (), ?s3)) = (Inr (), s4) \<and> fs s4 = fs ?s3 \<and> data s4 = data ?s3"
    using define_apis_returns[of w _ _ _ ?s3] by auto
  then obtain s4 where s4: "(if EXECUTION_STATUS ?s3 = 0
               then define_apis w (dict_get (vars ns) Username) (dict_get (vars ns) Password)
                      (dict_get (vars ns) Environment) ?s3
               else (Inr (), ?s3)) = (Inr (), s4)" and fs4: "fs s4 = fs ?s3" and d4: "data s4 = data ?s3"
    by blast
  have m: "main w (initial w) = (Inr None, s4\<lparr>EXECUTION_STATUS := 3\<rparr>)"
    unfolding main_def parse Let_def
    using s4 d4 out by (simp add: parsed_object_to_dict_def manage_data_json_None)
  have "program w = (0, s4\<lparr>EXECUTION_STATUS := 3, stdout := stdout s4 @ [PrintValue None]\<rparr>)"
    by (simp add: program_def m)
  moreover have "fs s4 = disk w" using fs4 fs1 by simp
  ultimately show ?thesis using out by (simp add: path_join_def)
qed

lemma world_401_parse:
  "parse_arguments (world_401 out) (initial (world_401 out))
   = (Inr (Some (example_namespace (lit ''1234567890'') out)), initial (world_401 out))"
  unfolding world_401_def by (rule example_parse)

lemma world_401_not_given: "\<not> given OutputDirectory (argv (world_401 None))"
  by (simp add: given_def world_401_def example_world_def example_tokens_def)

text \<open>The run of the example command line without \<open>-output\<close>, the login refused:
  status 3, no file, \<open>None\<close> printed.\<close>

theorem output_omitted_example:
  "parse_arguments (world_401 None) (initial (world_401 None))
     = (Inr (Some (example_namespace (lit ''1234567890'') None)), initial (world_401 None))
   \<and> \<not> given OutputDirectory (argv (world_401 None))
   \<and> fst (program (world_401 None)) = 0
   \<and> EXECUTION_STATUS (snd (program (world_401 None))) = 3
   \<and> files (fs (snd (program (world_401 None)))) = Map.empty
   \<and> stdout (snd (program (world_401 None))) = [PrintValue None]"
proof -
  have pr: "stdout (snd (program (world_401 None))) = [PrintValue None]"
    by (simp add: world_401_def model_defs example_defs)
  have dk: "files (disk (world_401 None)) = Map.empty"
    by (simp add: world_401_def example_world_def example_disk_def)
  from output_omitted [OF world_401_parse world_401_not_given] pr dk
  show ?thesis by (simp add: world_401_parse world_401_not_given)
qed


text \<open>
  Claim C10 as stated is about every run without \<open>-output\<close>. On the command line with
  \<open>-sn 1234567890\<close> alone, \<open>-output\<close> is omitted too, but argparse misses the required
  flags: the process exits with code 2, the status is still 0 and nothing is printed
  to standard output.
\<close>

theorem output_omitted_argparse_exit:
  "\<not> given OutputDirectory (argv world_only_serial)
   \<and> fst (program world_only_serial) = 2
   \<and> EXECUTION_STATUS (snd (program world_only_serial)) = 0
   \<and> stdout (snd (program world_only_serial)) = []"
  by (simp add: given_def world_only_serial_def model_defs example_defs)

section \<open>The traceability file\<close>

text \<open>
  Claim C9. The file name is the serial number, an underscore, the date of the run as two
  digits each for the year in its century, the month and the day, and \<open>.json\<close>. The
  example after it is serial number 1234567890 on 2024-06-01, which gives
  \<open>1234567890_240601.json\<close>.
\<close>

theorem format_filename_serial_date:
  assumes "d SerialNumber = Some (PStr sn)"
  shows "format_filename w (Some d) s
         = (Some (sn @ lit ''_'' @ two_digits (year (today w) mod 100)
                  @ two_digits (month (today w)) @ two_digits (day (today w)) @ lit ''.json''), s)"
  using assms
  by (simp add: format_filename_def dict_get_default_def DATE_def strftime_ymd_def)

text \<open>Serial number 1234567890 on 2024-06-01.\<close>

theorem format_filename_example:
  "vars (example_namespace (lit ''1234567890'') None) SerialNumber = Some (PStr (lit ''1234567890''))
   \<and> today (example_world [] (\<lambda>url. NetError) example_disk) = \<lparr>year = 2024, month = 6, day = 1\<rparr>
   \<and> format_filename (example_world [] (\<lambda>url. NetError) example_disk)
        (Some (vars (example_namespace (lit ''1234567890'') None)))
        (initial (example_world [] (\<lambda>url. NetError) example_disk))
      = (Some (lit ''1234567890_240601.json''),
         initial (example_world [] (\<lambda>url. NetError) example_disk))"
proof -
  have h: "vars (example_namespace (lit ''1234567890'') None) SerialNumber
           = Some (PStr (lit ''1234567890''))"
    by (simp add: vars_def example_namespace_def)
  show ?thesis
    using h format_filename_serial_date
        [where d = "vars (example_namespace (lit ''1234567890'') None)"
           and sn = "lit ''1234567890''"
           and w = "example_world [] (\<lambda>url. NetError) example_disk"
           and s = "initial (example_world [] (\<lambda>url. NetError) example_disk)"]
    by (simp add: example_world_def two_digits_def lit_def)
qed

lemma open_w_files:
  "open_w w f p = Inr f' \<Longrightarrow> f' = f\<lparr>files := (files f)(p \<mapsto> [])\<rparr>"
  by (auto simp: open_w_def split: if_splits)

lemma generate_json_written:
  assumes "open_w w (fs s) p = Inr f"
  shows "generate_json w (Some d) p s
         = s\<lparr>fs := (fs s)\<lparr>files := (files (fs s))
                  (p \<mapsto> [traceability_record (dict_get d SerialNumber) (EXECUTION_STATUS s)])\<rparr>\<rparr>"
  using open_w_files[OF assms] assms
  by (simp add: generate_json_def data_get_def json_dump_def)

lemma generate_json_failed:
  assumes "open_w w (fs s) p = Inl e"
  shows "generate_json w (Some d) p s = s\<lparr>EXECUTION_STATUS := 4\<rparr>"
  using assms by (simp add: generate_json_def data_get_def)

lemma open_w_cases:
  "open_w w f p = (if os_path_dirname w p \<in> dirs f \<and> p \<notin> refused f
                   then Inr (f\<lparr>files := (files f)(p \<mapsto> [])\<rparr>)
                   else Inl (if os_path_dirname w p \<notin> dirs f then FileNotFoundError else PermissionError))"
  by (simp add: open_w_def)

text \<open>
  Claim C6. \<open>generate_json\<close> opens the file for writing, which empties it, and dumps one
  record. So after any number of runs, one or more, that write to the same path (the same
  serial number on the same date in the same directory), the file holds exactly one JSON
  object, the record of the last run; nothing is appended.
\<close>

theorem rewrite_single_document:
  assumes "runs \<noteq> []"
      and "os_path_dirname w p \<in> dirs f" and "p \<notin> refused f"
  shows "files (rewrite w p runs f) p
         = Some [traceability_record (dict_get (fst (last runs)) SerialNumber) (snd (last runs))]"
  using assms
proof (induction runs arbitrary: f)
  case Nil
  then show ?case by simp
next
  case (Cons run runs)
  let ?s = "(initial w)\<lparr>EXECUTION_STATUS := snd run, fs := f\<rparr>"
  let ?f = "f\<lparr>files := (files f)(p \<mapsto> [traceability_record (dict_get (fst run) SerialNumber) (snd run)])\<rparr>"
  from Cons.prems(2,3) have o: "open_w w (fs ?s) p = Inr (f\<lparr>files := (files f)(p \<mapsto> [])\<rparr>)"
    by (simp add: open_w_def)
  have g: "fs (generate_json w (Some (fst run)) p ?s) = ?f"
    by (simp add: generate_json_written[OF o])
  show ?case
  proof (cases "runs = []")
    case True
    with g show ?thesis by simp
  next
    case False
    have "files (rewrite w p runs ?f) p
          = Some [traceability_record (dict_get (fst (last runs)) SerialNumber) (snd (last runs))]"
      using Cons.prems(2,3) by (intro Cons.IH[OF False]) simp_all
    with g False show ?thesis by simp
  qed
qed

text \<open>Two runs on the example disk, the first ending with status 11, the second with
  status 0: the file holds the one record of the second.\<close>

theorem rewrite_single_document_example:
  "[(vars (example_namespace (lit ''1234567890'') (Some (lit ''/out''))), 11),
    (vars (example_namespace (lit ''1234567890'') (Some (lit ''/out''))), 0)] \<noteq> []
   \<and> os_path_dirname (world_401 (Some (lit ''/out''))) (lit ''/out/1234567890_240601.json'')
       \<in> dirs example_disk
   \<and> lit ''/out/1234567890_240601.json'' \<notin> refused example_disk
   \<and> files (rewrite (world_401 (Some (lit ''/out''))) (lit ''/out/1234567890_240601.json'')
         [(vars (example_namespace (lit ''1234567890'') (Some (lit ''/out''))), 11),
          (vars (example_namespace (lit ''1234567890'') (Some (lit ''/out''))), 0)] example_disk)
        (lit ''/out/1234567890_240601.json'')
       = Some [JObj [(lit ''serialNumber'', JStr (lit ''1234567890'')),
                     (lit ''outputExecutionResult'', JInt 0)]]"
proof -
  let ?d = "vars (example_namespace (lit ''1234567890'') (Some (lit ''/out'')))"
  have ne: "[(?d, 11::int), (?d, 0)] \<noteq> []" by simp
  have dir: "os_path_dirname (world_401 (Some (lit ''/out''))) (lit ''/out/1234567890_240601.json'')
       \<in> dirs example_disk"
    by (simp add: world_401_def example_defs lit_def)
  have ok: "lit ''/out/1234567890_240601.json'' \<notin> refused example_disk"
    by (simp add: example_disk_def)
  from rewrite_single_document [OF ne dir ok] ne dir ok
  show ?thesis
    by (simp add: traceability_record_def dict_get_def vars_def example_namespace_def)
qed

text \<open>
  Claim C5. The claim: when the directory of the output path does not exist, the writer
  creates it and writes the file. \<open>generate_json\<close> calls \<open>open\<close> at once, with no
  \<open>os.makedirs\<close> (which the unused \<open>log_to_json\<close> of the same file does call). On the
  example disk, which has no directory \<open>/data/out\<close>, the run with \<open>-output /data/out\<close>
  ends with status 4 and the file system as it found it: no directory and no file are
  created, and the path of the file that does not exist is printed.
\<close>

theorem missing_directory_no_file:
  "lit ''/data/out'' \<notin> dirs (disk world_no_directory)
   \<and> fst (program world_no_directory) = 0
   \<and> stdout (snd (program world_no_directory)) = [PrintValue (Some (lit ''/data/out/1234567890_240601.json''))]
   \<and> EXECUTION_STATUS (snd (program world_no_directory)) = 4
   \<and> fs (snd (program world_no_directory)) = disk world_no_directory
   \<and> files (disk world_no_directory) (lit ''/data/out/1234567890_240601.json'') = None"
  by (simp add: world_no_directory_def model_defs example_defs)

section \<open>A login that fails\<close>

lemma raise_for_status_request: "raise_for_status r = Inl e \<Longrightarrow> is_RequestException e"
  by (auto simp: raise_for_status_def split: http_result.splits if_splits)

lemma define_apis_login_error:
  assumes "base_url_of environment = Some base_url"
      and "raise_for_status (server w (login_url base_url)) = Inl e"
  shows "define_apis w username password environment s
         = (Inr (),
            s\<lparr>payload := JObj [(lit ''username'', to_json username), (lit ''password'', to_json password)],
              api_login := login_url base_url,
              api_post_registration_code := registration_codes_url base_url,
              api_get_organizations := organizations_url base_url,
              api_get_template_registration_code := template_registration_code_url base_url,
              api_get_template_onasport_device := template_onasport_device_url base_url,
              api_post_onasport_device := devices_url base_url,
              events := events s @ [HttpPost (login_url base_url) None
                          (JObj [(lit ''username'', to_json username), (lit ''password'', to_json password)])],
              EXECUTION_STATUS := 11\<rparr>)"
  using assms raise_for_status_request[OF assms(2)]
  by (simp add: define_apis_def signin_def Let_def except_RequestException_def)


lemma manage_data_json_PStr:
  assumes "d SerialNumber = Some (PStr sn)"
  shows "manage_data_json w (Some d) (PStr dir) s
         = (Some (os_path_join w dir (sn @ lit ''_'' @ DATE w @ lit ''.json'')),
            generate_json w (Some d) (os_path_join w dir (sn @ lit ''_'' @ DATE w @ lit ''.json'')) s)"
  using assms
  by (simp add: manage_data_json_def format_filename_def path_join_def dict_get_default_def)

lemma parse_arguments_status_0:
  assumes "parse_arguments w (initial w) = (r, s1)" and "EXECUTION_STATUS s1 = 0"
  shows "s1 = initial w"
proof -
  from parse_arguments_initial[OF assms(1)] assms(2)
  have "s1 = (initial w)\<lparr>EXECUTION_STATUS := 0\<rparr>" by simp
  then show ?thesis by (simp add: initial_def)
qed

text \<open>
  Claim C1, as amended. Take a run where argparse accepts the command line with a valid serial number
  (status 0 after parsing) and the login is answered by an HTTP error status, 400 to 599,
  the codes for which \<open>raise_for_status\<close> raises. Then the login is the only request
  of the run: no organization, template or creation request follows. Every file the run
  changes holds exactly the record of the serial number with status 11; and when an
  output directory was given and the file can be opened there, \<open>main\<close> returns its path,
  the file holds that record, and the final status is 11.
\<close>

theorem login_http_error_run:
  assumes parse: "parse_arguments w (initial w) = (Inr (Some ns), s1)"
      and valid: "EXECUTION_STATUS s1 = 0"
      and serial: "ns SerialNumber = Some sn"
      and base: "base_url_of (dict_get (vars ns) Environment) = Some base_url"
      and reply: "server w (login_url base_url) = Resp code body"
      and error: "400 \<le> code \<and> code < 600"
      and run: "main w (initial w) = (r, s)"
  shows "events s = [HttpPost (login_url base_url) None
                       (JObj [(lit ''username'', to_json (dict_get (vars ns) Username)),
                              (lit ''password'', to_json (dict_get (vars ns) Password))])]
       \<and> (\<forall>p. files (fs s) p = files (disk w) p
              \<or> files (fs s) p = Some [traceability_record (PStr sn) 11])
       \<and> (ns OutputDirectory = Some dir
            \<and> open_w w (disk w) (os_path_join w dir (sn @ lit ''_'' @ DATE w @ lit ''.json'')) = Inr f
          \<longrightarrow> r = Inr (Some (os_path_join w dir (sn @ lit ''_'' @ DATE w @ lit ''.json'')))
              \<and> files (fs s) (os_path_join w dir (sn @ lit ''_'' @ DATE w @ lit ''.json''))
                  = Some [traceability_record (PStr sn) 11]
              \<and> EXECUTION_STATUS s = 11)"
proof -
  let ?d = "vars ns"
  let ?login = "HttpPost (login_url base_url) None
                  (JObj [(lit ''username'', to_json (dict_get ?d Username)),
                         (lit ''password'', to_json (dict_get ?d Password))])"
  let ?path = "\<lambda>dir. os_path_join w dir (sn @ lit ''_'' @ DATE w @ lit ''.json'')"
  from parse valid have s1: "s1 = initial w" by (rule parse_arguments_status_0)
  from reply error have e: "raise_for_status (server w (login_url base_url)) = Inl HTTPError"
    by (simp add: raise_for_status_def)
  from serial have sn: "?d SerialNumber = Some (PStr sn)" by (simp add: vars_def)
  then have gsn: "dict_get ?d SerialNumber = PStr sn" by (simp add: dict_get_def)
  define s4 where "s4 = snd (define_apis w (dict_get ?d Username) (dict_get ?d Password)
                          (dict_get ?d Environment) ((initial w)\<lparr>data := Some ?d\<rparr>))"
  have da: "define_apis w (dict_get ?d Username) (dict_get ?d Password)
              (dict_get ?d Environment) ((initial w)\<lparr>data := Some ?d\<rparr>) = (Inr (), s4)"
    unfolding s4_def by (simp add: define_apis_login_error[OF base e])
  have s4_events: "events s4 = [?login]" and s4_status: "EXECUTION_STATUS s4 = 11"
    and s4_fs: "fs s4 = disk w" and s4_data: "data s4 = Some ?d"
    unfolding s4_def by (simp_all add: define_apis_login_error[OF base e] initial_def)
  have m: "main w (initial w) = (case manage_data_json w (Some ?d) (dict_get ?d OutputDirectory) s4 of
             (path_to_print, s5) \<Rightarrow> (Inr path_to_print, s5))"
    unfolding main_def parse Let_def
    using da s4_data by (simp add: parsed_object_to_dict_def s1 initial_def)
  show ?thesis
  proof (cases "ns OutputDirectory")
    case None
    then have "dict_get ?d OutputDirectory = PNone" by (simp add: dict_get_def vars_def)
    with m run have "s = s4\<lparr>EXECUTION_STATUS := 3\<rparr>" by (simp add: manage_data_json_None)
    with None s4_events s4_fs show ?thesis by simp
  next
    case (Some dir')
    then have out: "dict_get ?d OutputDirectory = PStr dir'" by (simp add: dict_get_def vars_def)
    from m run have rs: "r = Inr (Some (?path dir'))" "s = generate_json w (Some ?d) (?path dir') s4"
      by (simp_all add: out manage_data_json_PStr[where d = "vars ns", OF sn])
    show ?thesis
    proof (cases "open_w w (disk w) (?path dir')")
      case (Inl x)
      with rs s4_fs have "s = s4\<lparr>EXECUTION_STATUS := 4\<rparr>" by (simp add: generate_json_failed)
      with Some Inl s4_events s4_fs show ?thesis by auto
    next
      case (Inr f')
      with s4_fs have "open_w w (fs s4) (?path dir') = Inr f'" by simp
      from generate_json_written[OF this] rs gsn s4_status s4_fs
      have "s = s4\<lparr>fs := (disk w)\<lparr>files := (files (disk w))
                   (?path dir' \<mapsto> [traceability_record (PStr sn) 11])\<rparr>\<rparr>" by simp
      with Some rs(1) s4_events s4_status show ?thesis by auto
    qed
  qed
qed

text \<open>The example command line with \<open>-output /out\<close> and the login answered by 401.\<close>

theorem login_http_error_run_example:
  "parse_arguments (world_401 (Some (lit ''/out''))) (initial (world_401 (Some (lit ''/out''))))
     = (Inr (Some (example_namespace (lit ''1234567890'') (Some (lit ''/out'')))),
        initial (world_401 (Some (lit ''/out''))))
   \<and> server (world_401 (Some (lit ''/out''))) (login_url URL_DEV) = Resp 401 None
   \<and> events (snd (main (world_401 (Some (lit ''/out''))) (initial (world_401 (Some (lit ''/out''))))))
       = [HttpPost (login_url URL_DEV) None
            (JObj [(lit ''username'', JStr (lit ''u'')), (lit ''password'', JStr (lit ''p''))])]
   \<and> fst (main (world_401 (Some (lit ''/out''))) (initial (world_401 (Some (lit ''/out'')))))
       = Inr (Some (lit ''/out/1234567890_240601.json''))
   \<and> files (fs (snd (main (world_401 (Some (lit ''/out''))) (initial (world_401 (Some (lit ''/out'')))))))
        (lit ''/out/1234567890_240601.json'')
       = Some [JObj [(lit ''serialNumber'', JStr (lit ''1234567890'')),
                     (lit ''outputExecutionResult'', JInt 11)]]"
proof -
  let ?w = "world_401 (Some (lit ''/out''))"
  let ?ns = "example_namespace (lit ''1234567890'') (Some (lit ''/out''))"
  let ?p = "os_path_join ?w (lit ''/out'') (lit ''1234567890'' @ lit ''_'' @ DATE ?w @ lit ''.json'')"
  have parse: "parse_arguments ?w (initial ?w) = (Inr (Some ?ns), initial ?w)"
    by (rule world_401_parse)
  have valid: "EXECUTION_STATUS (initial ?w) = 0" by (simp add: initial_def)
  have serial: "?ns SerialNumber = Some (lit ''1234567890'')" by (simp add: example_namespace_def)
  have base: "base_url_of (dict_get (vars ?ns) Environment) = Some URL_DEV"
    by (simp add: base_url_of_def dict_get_def vars_def example_namespace_def)
  have reply: "server ?w (login_url URL_DEV) = Resp 401 None"
    by (simp add: world_401_def example_world_def)
  have error: "(400::nat) \<le> 401 \<and> (401::nat) < 600" by simp
  have run: "main ?w (initial ?w) = (fst (main ?w (initial ?w)), snd (main ?w (initial ?w)))" by simp
  have path: "?p = lit ''/out/1234567890_240601.json''"
    by (simp add: world_401_def example_defs DATE_def strftime_ymd_def two_digits_def lit_def)
  have out: "?ns OutputDirectory = Some (lit ''/out'')" by (simp add: example_namespace_def)
  have opened: "open_w ?w (disk ?w) ?p
                = Inr ((disk ?w)\<lparr>files := (files (disk ?w))(?p \<mapsto> [])\<rparr>)"
    unfolding path by (simp add: open_w_def world_401_def example_defs lit_def)
  from login_http_error_run [OF parse valid serial base reply error run,
      of "lit ''/out''" "(disk ?w)\<lparr>files := (files (disk ?w))(?p \<mapsto> [])\<rparr>"] out opened
  show ?thesis
    unfolding path
    by (simp add: parse reply traceability_record_def dict_get_def vars_def example_namespace_def)
qed

text \<open>
  Claim C1 as stated is about every login that fails with a response that is not 2xx.
  \<open>raise_for_status\<close> raises for the codes 400 to 599 only. On the login answered by
  status 300 with the empty object, the login is the only request, as claimed, but the
  \<open>KeyError\<close> of the missing token ends in status 10: the file holds the serial number
  with 10, not with the authentication-failure code 11.
\<close>

theorem login_300_status_10:
  "server world_300 (login_url URL_DEV) = Resp 300 (Some (JObj []))
   \<and> events (snd (program world_300))
       = [HttpPost (login_url URL_DEV) None
            (JObj [(lit ''username'', JStr (lit ''u'')), (lit ''password'', JStr (lit ''p''))])]
   \<and> EXECUTION_STATUS (snd (program world_300)) = 10
   \<and> files (fs (snd (program world_300))) (lit ''/out/1234567890_240601.json'')
       = Some [JObj [(lit ''serialNumber'', JStr (lit ''1234567890'')),
                     (lit ''outputExecutionResult'', JInt 10)]]"
  by (simp add: world_300_def model_defs example_defs)

section \<open>What leaves main\<close>




section \<open>The ways a login fails\<close>






section \<open>Creating the registration code and the device\<close>

lemma add_device_step_a_fails:
  assumes "raise_for_status (server w (api_post_registration_code s)) = Inl x"
  shows "add_device w (Some d) s
         = (Inl AttributeError,
            s\<lparr>events := events s @ [HttpPost (api_post_registration_code s) (Some (headers_apis s))
                                      (registration_code_payload s d)],
              EXECUTION_STATUS := 9\<rparr>)"
  using assms
  by (simp add: add_device_def post_api_call_def Let_def loads_content_def
      except_RequestException_def)

lemma device_payload_events [simp]:
  "device_payload (s\<lparr>events := ev\<rparr>) d rid = device_payload s d rid"
  by (simp add: device_payload_def organization_id_def)

lemma add_device_step_a_done:
  assumes "raise_for_status (server w (api_post_registration_code s)) = Inr (Some j)"
      and "getitem j (lit ''_id'') = Inr rid"
  shows "events (snd (add_device w (Some d) s))
         = events s @ [HttpPost (api_post_registration_code s) (Some (headers_apis s))
                         (registration_code_payload s d),
                       Sleep 1,
                       HttpPost (api_post_onasport_device s) (Some (headers_apis s))
                         (device_payload s d rid)]"
  using assms
  by (simp add: add_device_def post_api_call_def Let_def loads_content_def
      except_RequestException_def split: sum.splits)

lemma add_device_events:
  "\<exists>rest. events (snd (add_device w (Some d) s))
           = events s @ HttpPost (api_post_registration_code s) (Some (headers_apis s))
                          (registration_code_payload s d) # rest
        \<and> (rest = []
           \<or> (\<exists>rid. rest = [Sleep 1, HttpPost (api_post_onasport_device s) (Some (headers_apis s))
                                    (device_payload s d rid)]))"
  by (auto simp: add_device_def post_api_call_def Let_def loads_content_def
      except_RequestException_def split: sum.splits option.splits)

lemma add_device_no_id:
  assumes "server w (api_post_registration_code s) = Resp code None
           \<or> server w (api_post_registration_code s) = Resp code (Some j)
              \<and> getitem j (lit ''_id'') = Inl x"
  shows "events (snd (add_device w (Some d) s))
         = events s @ [HttpPost (api_post_registration_code s) (Some (headers_apis s))
                         (registration_code_payload s d)]"
  using assms
  by (auto simp: add_device_def post_api_call_def Let_def loads_content_def raise_for_status_def
      except_RequestException_def split: sum.splits option.splits if_splits)

text \<open>
  Inside \<open>add_device\<close>. When the request that creates the registration code fails (no
  response, or an HTTP error status), \<open>post_api_call\<close> sets status 9 and \<open>add_device\<close>
  ends there, on the \<open>AttributeError\<close> of reading the missing response, with that one
  request sent. When the request succeeds and the response carries the identifier, the
  requests are the registration code, a pause of one second, then the device. When the
  response does not decode or carries no identifier, the registration code is again
  the only request.
\<close>

theorem registration_code_before_device:
  "(server w (api_post_registration_code s) = NetError
      \<or> server w (api_post_registration_code s) = Resp code body \<and> 400 \<le> code \<and> code < 600
    \<longrightarrow> add_device w (Some d) s
        = (Inl AttributeError,
           s\<lparr>events := events s @ [HttpPost (api_post_registration_code s) (Some (headers_apis s))
                                     (registration_code_payload s d)],
             EXECUTION_STATUS := 9\<rparr>))
   \<and> (server w (api_post_registration_code s) = Resp code (Some j) \<and> \<not> (400 \<le> code \<and> code < 600)
       \<and> getitem j (lit ''_id'') = Inr rid
    \<longrightarrow> events (snd (add_device w (Some d) s))
        = events s @ [HttpPost (api_post_registration_code s) (Some (headers_apis s))
                        (registration_code_payload s d),
                      Sleep 1,
                      HttpPost (api_post_onasport_device s) (Some (headers_apis s))
                        (device_payload s d rid)])
   \<and> (server w (api_post_registration_code s) = Resp code None
       \<or> server w (api_post_registration_code s) = Resp code (Some j)
          \<and> getitem j (lit ''_id'') = Inl x
    \<longrightarrow> events (snd (add_device w (Some d) s))
        = events s @ [HttpPost (api_post_registration_code s) (Some (headers_apis s))
                        (registration_code_payload s d)])"
proof (intro conjI impI)
  assume "server w (api_post_registration_code s) = NetError
      \<or> server w (api_post_registration_code s) = Resp code body \<and> 400 \<le> code \<and> code < 600"
  then have "\<exists>x. raise_for_status (server w (api_post_registration_code s)) = Inl x"
    by (auto simp: raise_for_status_def)
  then obtain x where "raise_for_status (server w (api_post_registration_code s)) = Inl x" ..
  then show "add_device w (Some d) s
        = (Inl AttributeError,
           s\<lparr>events := events s @ [HttpPost (api_post_registration_code s) (Some (headers_apis s))
                                     (registration_code_payload s d)],
             EXECUTION_STATUS := 9\<rparr>)"
    by (rule add_device_step_a_fails)
next
  assume h: "server w (api_post_registration_code s) = Resp code (Some j)
       \<and> \<not> (400 \<le> code \<and> code < 600) \<and> getitem j (lit ''_id'') = Inr rid"
  then have "raise_for_status (server w (api_post_registration_code s)) = Inr (Some j)"
    by (simp add: raise_for_status_def)
  with h show "events (snd (add_device w (Some d) s))
        = events s @ [HttpPost (api_post_registration_code s) (Some (headers_apis s))
                        (registration_code_payload s d),
                      Sleep 1,
                      HttpPost (api_post_onasport_device s) (Some (headers_apis s))
                        (device_payload s d rid)]"
    by (simp add: add_device_step_a_done)
next
  assume "server w (api_post_registration_code s) = Resp code None
       \<or> server w (api_post_registration_code s) = Resp code (Some j)
          \<and> getitem j (lit ''_id'') = Inl x"
  then show "events (snd (add_device w (Some d) s))
        = events s @ [HttpPost (api_post_registration_code s) (Some (headers_apis s))
                        (registration_code_payload s d)]"
    by (rule add_device_no_id)
qed

lemma state_before_add_device_simps:
  "api_post_registration_code (state_before_add_device w) = registration_codes_url URL_DEV"
  "api_post_onasport_device (state_before_add_device w) = devices_url URL_DEV"
  "headers_apis (state_before_add_device w) = JStr (lit ''tok'')"
  "events (state_before_add_device w) = []"
  "template_id_registration_code (state_before_add_device w) = JStr (lit ''tpl-rc'')"
  "onasport_device_template_id (state_before_add_device w) = JStr (lit ''tpl-dev'')"
  "ORGANIZATIONS_DIC (state_before_add_device w) (JStr (lit ''Acme'')) = None"
  by (simp_all add: state_before_add_device_def initial_def lit_def)

lemma world_upload_registration_codes:
  "server (world_upload r) (registration_codes_url URL_DEV) = r"
  by (simp add: world_upload_def example_world_def example_server_def model_defs)

text \<open>On the example server: the creation of the registration code answered by 500, then
  answered by 201 with the identifier.\<close>

theorem registration_code_before_device_example:
  "server (world_upload (Resp 500 None)) (registration_codes_url URL_DEV) = Resp 500 None
   \<and> add_device (world_upload (Resp 500 None))
         (Some (vars (example_namespace (lit ''1234567890'') (Some (lit ''/out'')))))
         (state_before_add_device (world_upload (Resp 500 None)))
       = (Inl AttributeError,
          (state_before_add_device (world_upload (Resp 500 None)))
            \<lparr>events := [HttpPost (registration_codes_url URL_DEV) (Some (JStr (lit ''tok'')))
                          (registration_code_payload (state_before_add_device (world_upload (Resp 500 None)))
                             (vars (example_namespace (lit ''1234567890'') (Some (lit ''/out'')))))],
             EXECUTION_STATUS := 9\<rparr>)
   \<and> server (world_upload created) (registration_codes_url URL_DEV) = created
   \<and> events (snd (add_device (world_upload created)
         (Some (vars (example_namespace (lit ''1234567890'') (Some (lit ''/out'')))))
         (state_before_add_device (world_upload created))))
       = [HttpPost (registration_codes_url URL_DEV) (Some (JStr (lit ''tok'')))
            (registration_code_payload (state_before_add_device (world_upload created))
               (vars (example_namespace (lit ''1234567890'') (Some (lit ''/out''))))),
          Sleep 1,
          HttpPost (devices_url URL_DEV) (Some (JStr (lit ''tok'')))
            (device_payload (state_before_add_device (world_upload created))
               (vars (example_namespace (lit ''1234567890'') (Some (lit ''/out''))))
               (JStr (lit ''rc-1'')))]"
proof -
  have id: "getitem (JObj [(lit ''_id'', JStr (lit ''rc-1''))]) (lit ''_id'') = Inr (JStr (lit ''rc-1''))"
    by (simp add: lit_def)
  from registration_code_before_device
      [where w = "world_upload (Resp 500 None)"
         and s = "state_before_add_device (world_upload (Resp 500 None))"
         and code = 500 and body = None
         and d = "vars (example_namespace (lit ''1234567890'') (Some (lit ''/out'')))"]
    registration_code_before_device
      [where w = "world_upload created"
         and s = "state_before_add_device (world_upload created)"
         and code = 201 and j = "JObj [(lit ''_id'', JStr (lit ''rc-1''))]"
         and rid = "JStr (lit ''rc-1'')"
         and d = "vars (example_namespace (lit ''1234567890'') (Some (lit ''/out'')))"]
    id
  show ?thesis
    by (simp add: state_before_add_device_simps world_upload_registration_codes created_def)
qed

text \<open>
  Claim C8. When the organization of the command line is not a key of
  \<open>ORGANIZATIONS_DIC\<close>, building the payload of the registration code raises nothing:
  the owner's id is null in it, the payload is posted as it is, and when the device is
  posted too its payload carries the same null id.
\<close>

theorem unknown_organization_null_owner:
  assumes org: "d Organization = Some (PStr organization)"
      and absent: "ORGANIZATIONS_DIC s (JStr organization) = None"
  shows "registration_code_payload s d
         = JObj [(lit ''_ownerOrganization'', JObj [(lit ''id'', JNull)]),
                 (lit ''_code'', to_json (dict_get d RegistrationCode)),
                 (lit ''_templateId'', template_id_registration_code s)]
       \<and> (\<exists>rest. events (snd (add_device w (Some d) s))
              = events s @ HttpPost (api_post_registration_code s) (Some (headers_apis s))
                  (JObj [(lit ''_ownerOrganization'', JObj [(lit ''id'', JNull)]),
                         (lit ''_code'', to_json (dict_get d RegistrationCode)),
                         (lit ''_templateId'', template_id_registration_code s)]) # rest
           \<and> (rest = []
              \<or> (\<exists>rid. rest = [Sleep 1,
                    HttpPost (api_post_onasport_device s) (Some (headers_apis s))
                      (JObj [(lit ''_ownerOrganization'', JObj [(lit ''id'', JNull)]),
                             (lit ''_registrationCode'', JObj [(lit ''id'', rid)]),
                             (lit ''_id'', to_json (dict_get d SerialNumber)),
                             (lit ''_description'', to_json (dict_get d Description)),
                             (lit ''device_version'', to_json (dict_get d Version)),
                             (lit ''_templateId'', onasport_device_template_id s)])])))"
proof -
  from org absent have null: "organization_id s d = JNull"
    by (simp add: organization_id_def dict_get_def)
  then have p: "registration_code_payload s d
         = JObj [(lit ''_ownerOrganization'', JObj [(lit ''id'', JNull)]),
                 (lit ''_code'', to_json (dict_get d RegistrationCode)),
                 (lit ''_templateId'', template_id_registration_code s)]"
    by (simp add: registration_code_payload_def)
  from null have q: "device_payload s d rid
         = JObj [(lit ''_ownerOrganization'', JObj [(lit ''id'', JNull)]),
                 (lit ''_registrationCode'', JObj [(lit ''id'', rid)]),
                 (lit ''_id'', to_json (dict_get d SerialNumber)),
                 (lit ''_description'', to_json (dict_get d Description)),
                 (lit ''device_version'', to_json (dict_get d Version)),
                 (lit ''_templateId'', onasport_device_template_id s)]" for rid
    by (simp add: device_payload_def)
  from add_device_events[of w d s] show ?thesis
    unfolding p q using p by simp
qed

text \<open>The example state lists no organization Acme: both payloads are sent with a null
  owner.\<close>

theorem unknown_organization_null_owner_example:
  "vars (example_namespace (lit ''1234567890'') (Some (lit ''/out''))) Organization
     = Some (PStr (lit ''Acme''))
   \<and> ORGANIZATIONS_DIC (state_before_add_device (world_upload created)) (JStr (lit ''Acme'')) = None
   \<and> registration_code_payload (state_before_add_device (world_upload created))
        (vars (example_namespace (lit ''1234567890'') (Some (lit ''/out''))))
      = JObj [(lit ''_ownerOrganization'', JObj [(lit ''id'', JNull)]),
              (lit ''_code'', JStr (lit ''RC'')),
              (lit ''_templateId'', JStr (lit ''tpl-rc''))]
   \<and> events (snd (add_device (world_upload created)
         (Some (vars (example_namespace (lit ''1234567890'') (Some (lit ''/out'')))))
         (state_before_add_device (world_upload created))))
       = [HttpPost (registration_codes_url URL_DEV) (Some (JStr (lit ''tok'')))
            (JObj [(lit ''_ownerOrganization'', JObj [(lit ''id'', JNull)]),
                   (lit ''_code'', JStr (lit ''RC'')),
                   (lit ''_templateId'', JStr (lit ''tpl-rc''))]),
          Sleep 1,
          HttpPost (devices_url URL_DEV) (Some (JStr (lit ''tok'')))
            (JObj [(lit ''_ownerOrganization'', JObj [(lit ''id'', JNull)]),
                   (lit ''_registrationCode'', JObj [(lit ''id'', JStr (lit ''rc-1''))]),
                   (lit ''_id'', JStr (lit ''1234567890'')),
                   (lit ''_description'', JStr (lit ''ONAS0000'')),
                   (lit ''device_version'', JStr (lit ''2.0.0'')),
                   (lit ''_templateId'', JStr (lit ''tpl-dev''))])]"
proof -
  let ?d = "vars (example_namespace (lit ''1234567890'') (Some (lit ''/out'')))"
  let ?s = "state_before_add_device (world_upload created)"
  have org: "?d Organization = Some (PStr (lit ''Acme''))"
    by (simp add: vars_def example_namespace_def)
  have absent: "ORGANIZATIONS_DIC ?s (JStr (lit ''Acme'')) = None"
    by (simp add: state_before_add_device_simps)
  have gets: "dict_get ?d RegistrationCode = PStr (lit ''RC'')"
    "dict_get ?d SerialNumber = PStr (lit ''1234567890'')"
    "dict_get ?d Description = PStr (lit ''ONAS0000'')"
    "dict_get ?d Version = PStr (lit ''2.0.0'')"
    by (simp_all add: dict_get_def vars_def example_namespace_def)
  have r: "raise_for_status (server (world_upload created) (api_post_registration_code ?s))
           = Inr (Some (JObj [(lit ''_id'', JStr (lit ''rc-1''))]))"
    by (simp add: state_before_add_device_simps world_upload_registration_codes created_def
        raise_for_status_def)
  have id: "getitem (JObj [(lit ''_id'', JStr (lit ''rc-1''))]) (lit ''_id'') = Inr (JStr (lit ''rc-1''))"
    by (simp add: lit_def)
  have p: "registration_code_payload ?s ?d
      = JObj [(lit ''_ownerOrganization'', JObj [(lit ''id'', JNull)]),
              (lit ''_code'', JStr (lit ''RC'')),
              (lit ''_templateId'', JStr (lit ''tpl-rc''))]"
    using unknown_organization_null_owner
      [where d = ?d and organization = "lit ''Acme''" and s = ?s and w = "world_upload created",
       OF org absent]
    by (simp add: gets state_before_add_device_simps)
  have q: "device_payload ?s ?d (JStr (lit ''rc-1''))
      = JObj [(lit ''_ownerOrganization'', JObj [(lit ''id'', JNull)]),
              (lit ''_registrationCode'', JObj [(lit ''id'', JStr (lit ''rc-1''))]),
              (lit ''_id'', JStr (lit ''1234567890'')),
              (lit ''_description'', JStr (lit ''ONAS0000'')),
              (lit ''device_version'', JStr (lit ''2.0.0'')),
              (lit ''_templateId'', JStr (lit ''tpl-dev''))]"
    using org absent
    by (simp add: device_payload_def organization_id_def dict_get_def gets[unfolded dict_get_def]
        state_before_add_device_simps)
  from add_device_step_a_done[OF r id, of ?d] p q org absent
  show ?thesis by (simp add: state_before_add_device_simps)
qed

section \<open>The creation requests in a whole run\<close>


















section \<open>Two whole runs\<close>

text \<open>
  With every request accepted the run ends with status 0 after the six requests and the
  pause. With the creation of the registration code refused, the \<open>AttributeError\<close>
  that follows status 9 is caught by \<open>define_apis\<close>, which prints it and sets status 10:
  the final status of that run is 10.
\<close>

lemma upload_succeeds:
  "EXECUTION_STATUS (snd (program (world_upload (Resp 201 (Some (JObj [(lit ''_id'', JStr (lit ''rc-1''))])))))) = 0
   \<and> map (\<lambda>ev. case ev of HttpPost url h p \<Rightarrow> url | HttpGet url h \<Rightarrow> url | Sleep n \<Rightarrow> [])
        (events (snd (program (world_upload (Resp 201 (Some (JObj [(lit ''_id'', JStr (lit ''rc-1''))])))))))
      = [login_url URL_DEV, organizations_url URL_DEV, template_registration_code_url URL_DEV,
         template_onasport_device_url URL_DEV, registration_codes_url URL_DEV, [], devices_url URL_DEV]"
  by (simp add: world_upload_def example_server_def model_defs example_defs)

lemma upload_step_a_fails:
  "EXECUTION_STATUS (snd (program (world_upload (Resp 500 None)))) = 10
   \<and> map (\<lambda>ev. case ev of HttpPost url h p \<Rightarrow> url | HttpGet url h \<Rightarrow> url | Sleep n \<Rightarrow> [])
        (events (snd (program (world_upload (Resp 500 None)))))
      = [login_url URL_DEV, organizations_url URL_DEV, template_registration_code_url URL_DEV,
         template_onasport_device_url URL_DEV, registration_codes_url URL_DEV]
   \<and> stdout (snd (program (world_upload (Resp 500 None))))
      = [PrintException AttributeError, PrintValue (Some (lit ''/out/1234567890_240601.json''))]"
  by (simp add: world_upload_def example_server_def model_defs example_defs)

end
